theory Spec2Isabelle
  imports Main
begin

section \<open>Remote training dashboard: the polling core of app.py\<close>

text \<open>
  A shallow embedding of \<^verbatim>\<open>src/app.py\<close>. Module-level globals become the record
  \<open>globals\<close>, threaded through every function. Everything the program obtains from
  outside itself is a field of the record \<open>env\<close>: the outcome of \<^verbatim>\<open>subprocess.run\<close>
  for an argument vector, the library functions \<^verbatim>\<open>json.loads\<close> and \<^verbatim>\<open>float\<close>, and
  the clock. A Python exception is a value of type \<open>exc\<close>; a function that can raise
  returns \<open>exc + 'a\<close> with \<open>Inl\<close> the raised exception.

  Strings are lists of \<open>char\<close>, read as code points below 256. Python floats are
  only parsed, stored and returned by the program, never computed with, so their type
  is the parameter \<open>'f\<close>.

  Modelled are the executor and the syncer, the three collectors, and the handlers that
  read or write the globals, together with \<^verbatim>\<open>get_output\<close>. Calls of \<^verbatim>\<open>print\<close> are left
  out. The two monitor threads are loops of a collector call and a sleep while the flag
  is set; one iteration is one collector call, and a started thread is recorded by its
  target.
\<close>

subsection \<open>Python values and library behaviour\<close>

datatype exc =
  OSError string
| ValueError string
| JSONDecodeError string
| IndexError string
| TypeError string
| AttributeError string

text \<open>\<^verbatim>\<open>str(e)\<close>: the message the exception carries.\<close>

fun str_exc :: "exc \<Rightarrow> string" where
  "str_exc (OSError m) = m"
| "str_exc (ValueError m) = m"
| "str_exc (JSONDecodeError m) = m"
| "str_exc (IndexError m) = m"
| "str_exc (TypeError m) = m"
| "str_exc (AttributeError m) = m"

text \<open>The value \<^verbatim>\<open>json.loads\<close> returns. An object is the list of its items.\<close>

datatype 'f json =
  JNull
| JBool bool
| JInt int
| JFloat 'f
| JStr string
| JArr "'f json list"
| JObj "(string \<times> 'f json) list"

text \<open>\<^verbatim>\<open>subprocess.CompletedProcess\<close> with captured text output.\<close>

record completed_process =
  cp_stdout :: string
  cp_stderr :: string
  cp_returncode :: int

text \<open>
  The outside world during one call of a handler or collector. \<open>subprocess_run\<close> raises
  (\<open>Inl\<close>) when the process cannot be spawned, and otherwise returns whatever the
  process printed and its exit code.
\<close>

record 'f env =
  subprocess_run :: "string list \<Rightarrow> exc + completed_process"
  json_loads :: "string \<Rightarrow> exc + 'f json"
  py_float :: "string \<Rightarrow> exc + 'f"
  now_isoformat :: string

text \<open>The configuration read from the process environment at import time.\<close>

record config =
  SSH_HOST :: string
  SSH_PORT :: string
  SSH_KEY_PATH :: string
  SSH_USERNAME :: string
  TENSORBOARD_LOGS_PATH :: string
  IMAGE_SAMPLES_PATH :: string
  REMOTE_VENV_PATH :: string
  MAIN_THREAD_OUTPUT :: string
  LOCAL_IMAGES_PATH :: string
  LOCAL_OUTPUT_PATH :: string
  TENSORBOARD_SCRIPT_PATH :: string

definition REMOTE_SCRIPT_PATH :: string where
  "REMOTE_SCRIPT_PATH = ''/home/user/remoteutil/extract_tensorboard.py''"

subsection \<open>String operations of the Python library\<close>

text \<open>\<^verbatim>\<open>str.isspace\<close> on one code point below 256.\<close>

definition is_space :: "char \<Rightarrow> bool" where
  "is_space c = (of_char c \<in> set [9, 10, 11, 12, 13, 28, 29, 30, 31, 32, 133, 160 :: nat])"

definition strip :: "string \<Rightarrow> string" where
  "strip s = rev (dropWhile is_space (rev (dropWhile is_space s)))"

text \<open>\<^verbatim>\<open>s.lstrip('/')\<close>.\<close>

definition lstrip_slash :: "string \<Rightarrow> string" where
  "lstrip_slash s = dropWhile (\<lambda>c. c = CHR ''/'') s"

text \<open>\<^verbatim>\<open>s.rstrip('/')\<close>.\<close>

definition rstrip_slash :: "string \<Rightarrow> string" where
  "rstrip_slash s = rev (dropWhile (\<lambda>c. c = CHR ''/'') (rev s))"

text \<open>\<^verbatim>\<open>s.split(sep)\<close> for a one-character separator: never an empty list.\<close>

fun split_on :: "char \<Rightarrow> string \<Rightarrow> string list" where
  "split_on sep [] = [[]]"
| "split_on sep (c # cs) =
     (if c = sep then [] # split_on sep cs
      else (case split_on sep cs of
              [] \<Rightarrow> [[c]]
            | w # ws \<Rightarrow> (c # w) # ws))"

text \<open>\<^verbatim>\<open>sep.join(xs)\<close>.\<close>

fun join :: "string \<Rightarrow> string list \<Rightarrow> string" where
  "join sep [] = []"
| "join sep [x] = x"
| "join sep (x # y # ys) = x @ sep @ join sep (y # ys)"

text \<open>\<^verbatim>\<open>sub in s\<close> for strings.\<close>

fun is_substring :: "string \<Rightarrow> string \<Rightarrow> bool" where
  "is_substring sub [] = (sub = [])"
| "is_substring sub (c # cs) = (take (length sub) (c # cs) = sub \<or> is_substring sub cs)"

text \<open>\<^verbatim>\<open>xs[i]\<close> for \<open>i \<ge> 0\<close>: IndexError out of range.\<close>

definition py_index :: "'a list \<Rightarrow> nat \<Rightarrow> exc + 'a" where
  "py_index xs i =
     (if i < length xs then Inr (xs ! i) else Inl (IndexError ''list index out of range''))"

text \<open>\<^verbatim>\<open>xs[-n:]\<close>: the last \<open>n\<close> elements, all of them when there are fewer.\<close>

definition last_n :: "nat \<Rightarrow> 'a list \<Rightarrow> 'a list" where
  "last_n n xs = drop (length xs - n) xs"

text \<open>\<^verbatim>\<open>posixpath.dirname\<close>.\<close>

definition dirname :: "string \<Rightarrow> string" where
  "dirname p =
     (let hd_part = rev (dropWhile (\<lambda>c. c \<noteq> CHR ''/'') (rev p))
      in if hd_part \<noteq> [] \<and> hd_part \<noteq> replicate (length hd_part) (CHR ''/'')
         then rstrip_slash hd_part else hd_part)"

subsection \<open>Remote Executor and File Syncer\<close>

definition ssh_argv :: "config \<Rightarrow> string \<Rightarrow> string list" where
  "ssh_argv cfg command =
     [''ssh'',
      ''-i'', SSH_KEY_PATH cfg,
      ''-p'', SSH_PORT cfg,
      ''-o'', ''StrictHostKeyChecking=no'',
      SSH_USERNAME cfg @ ''@'' @ SSH_HOST cfg,
      command]"

text \<open>
  \<^verbatim>\<open>run_ssh_command\<close> has no exception handler of its own: what \<^verbatim>\<open>subprocess.run\<close>
  raises leaves the function.
\<close>

definition run_ssh_command ::
  "config \<Rightarrow> 'f env \<Rightarrow> string \<Rightarrow> exc + (string \<times> string \<times> int)" where
  "run_ssh_command cfg env command =
     (case subprocess_run env (ssh_argv cfg command) of
        Inl e \<Rightarrow> Inl e
      | Inr r \<Rightarrow> Inr (cp_stdout r, cp_stderr r, cp_returncode r))"

definition rsync_argv :: "config \<Rightarrow> string \<Rightarrow> string \<Rightarrow> bool \<Rightarrow> string list" where
  "rsync_argv cfg source destination remote_to_local =
     (if remote_to_local then
        [''rsync'', ''-av'',
         ''-e'', ''ssh -i '' @ SSH_KEY_PATH cfg @ '' -p '' @ SSH_PORT cfg
                 @ '' -o StrictHostKeyChecking=no'',
         SSH_USERNAME cfg @ ''@'' @ SSH_HOST cfg @ '':'' @ source,
         destination]
      else
        [''rsync'', ''-av'',
         ''-e'', ''ssh -i '' @ SSH_KEY_PATH cfg @ '' -p '' @ SSH_PORT cfg
                 @ '' -o StrictHostKeyChecking=no'',
         source,
         SSH_USERNAME cfg @ ''@'' @ SSH_HOST cfg @ '':'' @ destination])"

definition run_rsync ::
  "config \<Rightarrow> 'f env \<Rightarrow> string \<Rightarrow> string \<Rightarrow> bool \<Rightarrow> exc + (string \<times> string \<times> string \<times> int)" where
  "run_rsync cfg env source destination remote_to_local =
     (let rsync_command = rsync_argv cfg source destination remote_to_local;
          command_str = join '' '' rsync_command
      in case subprocess_run env rsync_command of
           Inl e \<Rightarrow> Inl e
         | Inr r \<Rightarrow> Inr (command_str, cp_stdout r, cp_stderr r, cp_returncode r))"

subsection \<open>Shared state\<close>

text \<open>
  The module's globals. \<open>tensorboard_data\<close> is the dictionary from normalized experiment
  path to the parsed scalars; \<open>nvidia_smi_data\<close> is the dictionary of five lists.
  A started thread is recorded by its target.
\<close>

datatype thread_target = Nvidia_smi_monitor_thread | Tensorboard_monitor_thread string

record 'f nvidia_smi =
  timestamps :: "string list"
  temperature :: "'f list"
  power' :: "'f list"
  memory_used :: "'f list"
  memory_total :: "'f list"

record 'f globals =
  tensorboard_data :: "string \<rightharpoonup> 'f json"
  nvidia_smi_data :: "'f nvidia_smi"
  tensorboard_experiments :: "string list"
  monitoring_active :: bool
  monitoring_threads :: "thread_target list"

definition initial_globals :: "'f globals" where
  "initial_globals =
     \<lparr>tensorboard_data = Map.empty,
      nvidia_smi_data =
        \<lparr>timestamps = [], temperature = [], power' = [], memory_used = [], memory_total = []\<rparr>,
      tensorboard_experiments = [],
      monitoring_active = False,
      monitoring_threads = []\<rparr>"

text \<open>
  What a function does to the shared state is logged as it runs: entering and leaving
  \<^verbatim>\<open>with data_lock:\<close>, each statement that assigns to or mutates a global, and each
  \<^verbatim>\<open>Thread.start()\<close>.
\<close>

datatype shared_var =
  Tensorboard_data
| Nvidia_smi_data
| Tensorboard_experiments
| Monitoring_active
| Monitoring_threads

datatype event = Acquire | Release | Write shared_var | Spawn thread_target

text \<open>
  \<open>guarded vs held es\<close>: in the log \<open>es\<close>, started with the lock held or not, every write
  to a variable of \<open>vs\<close> happens while the lock is held.
\<close>

fun guarded :: "shared_var list \<Rightarrow> bool \<Rightarrow> event list \<Rightarrow> bool" where
  "guarded vs held [] = True"
| "guarded vs held (Acquire # es) = guarded vs True es"
| "guarded vs held (Release # es) = guarded vs False es"
| "guarded vs held (Write v # es) = ((held \<or> v \<notin> set vs) \<and> guarded vs held es)"
| "guarded vs held (Spawn t # es) = guarded vs held es"

text \<open>Whether the lock is held after the log \<open>es\<close>.\<close>

fun lock_after :: "bool \<Rightarrow> event list \<Rightarrow> bool" where
  "lock_after held [] = held"
| "lock_after held (Acquire # es) = lock_after True es"
| "lock_after held (Release # es) = lock_after False es"
| "lock_after held (Write v # es) = lock_after held es"
| "lock_after held (Spawn t # es) = lock_after held es"

text \<open>The globals the program assigns only inside \<^verbatim>\<open>with data_lock:\<close>.\<close>

definition locked_vars :: "shared_var list" where
  "locked_vars = [Tensorboard_data, Nvidia_smi_data, Tensorboard_experiments]"

subsection \<open>Results returned by the collectors and handlers\<close>

record cmd_result =
  command :: string
  stdout :: string
  stderr :: string
  returncode :: int

text \<open>The scalar fetcher's dictionary: \<open>data\<close> is None or the parsed object, and the
  key \<^verbatim>\<open>'error'\<close> is present only on the reported-error path.\<close>

record 'f tb_result = cmd_result +
  data :: "'f json option"
  error :: "'f json option"

record exp_result = cmd_result +
  experiments :: "string list"

record 'f gpu_response =
  window :: "'f nvidia_smi"
  gpu_command :: string
  raw_output :: string
  gpu_stderr :: string
  gpu_returncode :: int

text \<open>The JSON object of the start, stop and output handlers; an absent key is None.\<close>

record api_response =
  status :: string
  message :: "string option"
  output_text :: "string option"
  content :: "string option"

text \<open>The dictionary every collector returns from its \<^verbatim>\<open>except Exception as e\<close>.\<close>

definition exc_result :: "string \<Rightarrow> exc \<Rightarrow> cmd_result" where
  "exc_result cmd e = \<lparr>command = cmd, stdout = [], stderr = str_exc e, returncode = 1\<rparr>"

definition bind_exc :: "exc + 'a \<Rightarrow> ('a \<Rightarrow> exc + 'b) \<Rightarrow> exc + 'b" where
  "bind_exc m f = (case m of Inl e \<Rightarrow> Inl e | Inr x \<Rightarrow> f x)"

definition newline :: string where
  "newline = [CHR 0x0A]"

definition dquote :: string where
  "dquote = [CHR 0x22]"

definition squote :: string where
  "squote = [CHR 0x27]"

subsection \<open>Metric collectors\<close>

definition list_command :: "config \<Rightarrow> string" where
  "list_command cfg =
     ''find '' @ TENSORBOARD_LOGS_PATH cfg @ '' -type d -name '' @ dquote
       @ ''events.out.tfevents.*'' @ dquote @ '' -exec dirname {} '' @ [CHR 0x5C] @ '';''"

definition list_tensorboard_experiments ::
  "config \<Rightarrow> 'f env \<Rightarrow> 'f globals \<Rightarrow> exp_result \<times> 'f globals \<times> event list" where
  "list_tensorboard_experiments cfg env s =
     (let cmd = list_command cfg in
      case run_ssh_command cfg env cmd of
        Inl e \<Rightarrow> (cmd_result.extend (exc_result cmd e) \<lparr>experiments = []\<rparr>, s, [])
      | Inr (out, err, rc) \<Rightarrow>
          if rc \<noteq> 0 then
            (\<lparr>command = cmd, stdout = out, stderr = err, returncode = rc, experiments = []\<rparr>,
             s, [])
          else
            let exps = filter (\<lambda>e. e \<noteq> []) (split_on (CHR 0x0A) (strip out)) in
            (\<lparr>command = cmd, stdout = out, stderr = err, returncode = rc, experiments = exps\<rparr>,
             s\<lparr>tensorboard_experiments := exps\<rparr>,
             [Acquire, Write Tensorboard_experiments, Release]))"

definition tb_command :: "config \<Rightarrow> string \<Rightarrow> string" where
  "tb_command cfg experiment_path =
     ''source '' @ REMOTE_VENV_PATH cfg @ ''/bin/activate && python '' @ REMOTE_SCRIPT_PATH
       @ '' '' @ dquote @ experiment_path @ dquote"

text \<open>
  \<^verbatim>\<open>'error' in data\<close> followed, when it holds, by \<^verbatim>\<open>data['error']\<close>, for each type of
  value \<^verbatim>\<open>json.loads\<close> can return: \<open>Inr None\<close> when the test is false, \<open>Inr (Some v)\<close>
  when it is true and the subscript gives \<open>v\<close>, \<open>Inl\<close> when either raises (messages of
  CPython 3.11).
\<close>

fun error_field :: "'f json \<Rightarrow> exc + 'f json option" where
  "error_field (JObj kvs) = Inr (map_of kvs ''error'')"
| "error_field (JArr xs) =
     (if JStr ''error'' \<in> set xs
      then Inl (TypeError ''list indices must be integers or slices, not str'')
      else Inr None)"
| "error_field (JStr s) =
     (if is_substring ''error'' s
      then Inl (TypeError (''string indices must be integers, not '' @ squote @ ''str'' @ squote))
      else Inr None)"
| "error_field JNull =
     Inl (TypeError (''argument of type '' @ squote @ ''NoneType'' @ squote @ '' is not iterable''))"
| "error_field (JBool b) =
     Inl (TypeError (''argument of type '' @ squote @ ''bool'' @ squote @ '' is not iterable''))"
| "error_field (JInt i) =
     Inl (TypeError (''argument of type '' @ squote @ ''int'' @ squote @ '' is not iterable''))"
| "error_field (JFloat x) =
     Inl (TypeError (''argument of type '' @ squote @ ''float'' @ squote @ '' is not iterable''))"

definition fetch_tensorboard_data ::
  "config \<Rightarrow> 'f env \<Rightarrow> string \<Rightarrow> 'f globals \<Rightarrow> 'f tb_result \<times> 'f globals \<times> event list" where
  "fetch_tensorboard_data cfg env experiment_path s =
     (let cmd = tb_command cfg experiment_path in
      case run_ssh_command cfg env cmd of
        Inl e \<Rightarrow> (cmd_result.extend (exc_result cmd e) \<lparr>data = None, error = None\<rparr>, s, [])
      | Inr (out, err, rc) \<Rightarrow>
          if rc \<noteq> 0 \<or> out = [] then
            (\<lparr>command = cmd, stdout = out, stderr = err, returncode = rc,
              data = None, error = None\<rparr>, s, [])
          else
            (case bind_exc (json_loads env out) (\<lambda>d. bind_exc (error_field d) (\<lambda>ef. Inr (d, ef))) of
               Inl e \<Rightarrow>
                 (cmd_result.extend (exc_result cmd e) \<lparr>data = None, error = None\<rparr>, s, [])
             | Inr (d, Some err_value) \<Rightarrow>
                 (\<lparr>command = cmd, stdout = out, stderr = err, returncode = rc,
                   data = None, error = Some err_value\<rparr>, s, [])
             | Inr (d, None) \<Rightarrow>
                 let normalized_path = lstrip_slash experiment_path in
                 (\<lparr>command = cmd, stdout = out, stderr = err, returncode = rc,
                   data = Some d, error = None\<rparr>,
                  s\<lparr>tensorboard_data := (tensorboard_data s)(normalized_path \<mapsto> d)\<rparr>,
                  [Acquire, Write Tensorboard_data, Release])))"

definition nvidia_command :: string where
  "nvidia_command =
     ''nvidia-smi --query-gpu=temperature.gpu,power.draw,memory.used,memory.total --format=csv,noheader,nounits''"

text \<open>\<^verbatim>\<open>float(vals[i].strip())\<close>: the subscript may raise IndexError, \<^verbatim>\<open>float\<close> ValueError.\<close>

definition float_at :: "'f env \<Rightarrow> string list \<Rightarrow> nat \<Rightarrow> exc + 'f" where
  "float_at env vals i = bind_exc (py_index vals i) (\<lambda>v. py_float env (strip v))"

text \<open>The four assignments \<^verbatim>\<open>temp\<close>, \<^verbatim>\<open>power\<close>, \<^verbatim>\<open>mem_used\<close>, \<^verbatim>\<open>mem_total\<close>, in order.\<close>

definition parse_gpu_fields :: "'f env \<Rightarrow> string list \<Rightarrow> exc + ('f \<times> 'f \<times> 'f \<times> 'f)" where
  "parse_gpu_fields env vals =
     bind_exc (float_at env vals 0) (\<lambda>temp.
     bind_exc (float_at env vals 1) (\<lambda>pw.
     bind_exc (float_at env vals 2) (\<lambda>mem_used.
     bind_exc (float_at env vals 3) (\<lambda>mem_total.
       Inr (temp, pw, mem_used, mem_total)))))"

text \<open>The five appends inside \<^verbatim>\<open>with data_lock:\<close>.\<close>

definition append_sample ::
  "string \<Rightarrow> 'f \<times> 'f \<times> 'f \<times> 'f \<Rightarrow> 'f nvidia_smi \<Rightarrow> 'f nvidia_smi" where
  "append_sample ts sample d =
     (case sample of (temp, pw, mem_used, mem_total) \<Rightarrow>
        \<lparr>timestamps = timestamps d @ [ts],
         temperature = temperature d @ [temp],
         power' = power' d @ [pw],
         memory_used = memory_used d @ [mem_used],
         memory_total = memory_total d @ [mem_total]\<rparr>)"

text \<open>\<^verbatim>\<open>for key in nvidia_smi_data: nvidia_smi_data[key] = nvidia_smi_data[key][-100:]\<close>.\<close>

definition trim_all :: "'f nvidia_smi \<Rightarrow> 'f nvidia_smi" where
  "trim_all d =
     \<lparr>timestamps = last_n 100 (timestamps d),
      temperature = last_n 100 (temperature d),
      power' = last_n 100 (power' d),
      memory_used = last_n 100 (memory_used d),
      memory_total = last_n 100 (memory_total d)\<rparr>"

text \<open>The whole locked block: the appends, then the trim when the timestamps exceed 100.\<close>

definition record_sample ::
  "string \<Rightarrow> 'f \<times> 'f \<times> 'f \<times> 'f \<Rightarrow> 'f nvidia_smi \<Rightarrow> 'f nvidia_smi \<times> event list" where
  "record_sample ts sample d =
     (let d1 = append_sample ts sample d in
      if length (timestamps d1) > 100
      then (trim_all d1,
            Acquire # replicate 5 (Write Nvidia_smi_data) @ replicate 5 (Write Nvidia_smi_data)
              @ [Release])
      else (d1, Acquire # replicate 5 (Write Nvidia_smi_data) @ [Release]))"

definition fetch_nvidia_smi ::
  "config \<Rightarrow> 'f env \<Rightarrow> 'f globals \<Rightarrow> cmd_result \<times> 'f globals \<times> event list" where
  "fetch_nvidia_smi cfg env s =
     (let cmd = nvidia_command in
      case run_ssh_command cfg env cmd of
        Inl e \<Rightarrow> (exc_result cmd e, s, [])
      | Inr (out, err, rc) \<Rightarrow>
          if rc \<noteq> 0 then
            (\<lparr>command = cmd, stdout = out, stderr = err, returncode = rc\<rparr>, s, [])
          else
            let out_line = strip out in
            if out_line \<noteq> [] then
              (case parse_gpu_fields env (split_on (CHR '','') out_line) of
                 Inl e \<Rightarrow> (exc_result cmd e, s, [])
               | Inr sample \<Rightarrow>
                   (case record_sample (now_isoformat env) sample (nvidia_smi_data s) of
                      (d, evs) \<Rightarrow>
                        (\<lparr>command = cmd, stdout = out, stderr = err, returncode = rc\<rparr>,
                         s\<lparr>nvidia_smi_data := d\<rparr>, evs)))
            else
              (\<lparr>command = cmd, stdout = out, stderr = err, returncode = rc\<rparr>, s, []))"

subsection \<open>API handlers\<close>

text \<open>\<^verbatim>\<open>GET /api/tensorboard/<path>\<close>: \<^verbatim>\<open>tensorboard_data.get(normalized_path, {})\<close>.\<close>

definition get_tensorboard_data ::
  "string \<Rightarrow> 'f globals \<Rightarrow> 'f json \<times> 'f globals \<times> event list" where
  "get_tensorboard_data experiment_path s =
     (let normalized_path = lstrip_slash experiment_path in
      (case tensorboard_data s normalized_path of
         Some d \<Rightarrow> d
       | None \<Rightarrow> JObj []),
      s, [Acquire, Release])"

text \<open>
  \<^verbatim>\<open>GET /api/nvidia-smi\<close>. \<^verbatim>\<open>fetch_nvidia_smi\<close> catches every exception itself, so
  the handler's own \<^verbatim>\<open>except\<close> branch is never taken.
\<close>

definition get_nvidia_smi_data ::
  "config \<Rightarrow> 'f env \<Rightarrow> 'f globals \<Rightarrow> 'f gpu_response \<times> 'f globals \<times> event list" where
  "get_nvidia_smi_data cfg env s =
     (case fetch_nvidia_smi cfg env s of
        (result, s1, evs) \<Rightarrow>
          (\<lparr>window = nvidia_smi_data s1,
            gpu_command = command result,
            raw_output = stdout result,
            gpu_stderr = stderr result,
            gpu_returncode = returncode result\<rparr>,
           s1, evs @ [Acquire, Release]))"

text \<open>\<^verbatim>\<open>if experiment_path:\<close> is false for None and for the empty string.\<close>

definition truthy :: "string option \<Rightarrow> bool" where
  "truthy p = (case p of None \<Rightarrow> False | Some x \<Rightarrow> x \<noteq> [])"

definition mkdir_command :: string where
  "mkdir_command = ''mkdir -p '' @ dirname REMOTE_SCRIPT_PATH"

text \<open>
  Lines 416 to 451 of \<^verbatim>\<open>start_monitoring\<close>: the flag and the thread list are assigned
  outside any \<^verbatim>\<open>with data_lock:\<close>, then the two priming fetches run, then the threads
  are started. \<open>outputs\<close> is the list of messages collected so far.
\<close>

definition start_collectors ::
  "config \<Rightarrow> 'f env \<Rightarrow> string option \<Rightarrow> string list \<Rightarrow> 'f globals
     \<Rightarrow> api_response \<times> 'f globals \<times> event list" where
  "start_collectors cfg env experiment_path outputs s =
     (let s1 = s\<lparr>monitoring_active := True, monitoring_threads := []\<rparr>;
          ev1 = [Write Monitoring_active, Write Monitoring_threads]
      in case fetch_nvidia_smi cfg env s1 of
        (nvidia_result, s2, ev2) \<Rightarrow>
          let outputs2 =
                (if returncode nvidia_result = 0
                 then outputs @ [''Initial GPU metrics fetched successfully'']
                 else outputs)
          in case (if truthy experiment_path then
                     (case fetch_tensorboard_data cfg env (the experiment_path) s2 of
                        (tb_result, s3, ev3) \<Rightarrow>
                          (if returncode tb_result = 0
                           then outputs2 @ [''Initial tensorboard data fetched for: ''
                                            @ the experiment_path]
                           else outputs2 @ [''Warning: Could not fetch initial tensorboard data: ''
                                            @ stderr tb_result],
                           s3, ev3))
                   else (outputs2, s2, [])) of
            (outputs3, s3, ev3) \<Rightarrow>
              let s4 = s3\<lparr>monitoring_threads := monitoring_threads s3 @ [Nvidia_smi_monitor_thread]\<rparr>;
                  ev4 = [Spawn Nvidia_smi_monitor_thread, Write Monitoring_threads];
                  outputs4 = outputs3 @ [''Started nvidia-smi monitoring thread (10s interval)'']
              in if truthy experiment_path then
                   (\<lparr>status = ''started'', message = None,
                     output_text = Some (join newline
                       (outputs4 @ [''Started tensorboard monitoring thread (30s interval) for: ''
                                     @ the experiment_path])),
                     content = None\<rparr>,
                    s4\<lparr>monitoring_threads := monitoring_threads s4
                          @ [Tensorboard_monitor_thread (the experiment_path)]\<rparr>,
                    ev1 @ ev2 @ ev3 @ ev4
                      @ [Spawn (Tensorboard_monitor_thread (the experiment_path)),
                         Write Monitoring_threads])
                 else
                   (\<lparr>status = ''started'', message = None,
                     output_text = Some (join newline outputs4), content = None\<rparr>,
                    s4, ev1 @ ev2 @ ev3 @ ev4))"

text \<open>
  \<^verbatim>\<open>POST /api/start-monitoring\<close>. The argument \<open>request_json\<close> is the outcome of
  \<^verbatim>\<open>request.json\<close> followed by \<^verbatim>\<open>data.get('experiment_path')\<close>: \<open>Inl\<close> when either raises
  (the handler has no handler around them, so the exception leaves it), otherwise the
  value of the key, a string or None.
\<close>

definition start_monitoring ::
  "config \<Rightarrow> 'f env \<Rightarrow> exc + string option \<Rightarrow> 'f globals
     \<Rightarrow> (exc + api_response) \<times> 'f globals \<times> event list" where
  "start_monitoring cfg env request_json s =
     (if monitoring_active s then
        (Inr \<lparr>status = ''already_running'', message = None,
              output_text = Some ''Monitoring already active'', content = None\<rparr>, s, [])
      else case request_json of
        Inl e \<Rightarrow> (Inl e, s, [])
      | Inr experiment_path \<Rightarrow>
          (case run_ssh_command cfg env mkdir_command of
             Inl e \<Rightarrow>
               (Inr \<lparr>status = ''error'', message = Some (str_exc e),
                     output_text = Some (join newline [] @ newline @ ''Error: '' @ str_exc e),
                     content = None\<rparr>, s, [])
           | Inr (out, err, rc) \<Rightarrow>
               let outputs = [''$ '' @ mkdir_command @ newline @ out @ err] in
               (case run_rsync cfg env (TENSORBOARD_SCRIPT_PATH cfg) REMOTE_SCRIPT_PATH False of
                  Inl e \<Rightarrow>
                    (Inr \<lparr>status = ''error'', message = Some (str_exc e),
                          output_text =
                            Some (join newline outputs @ newline @ ''Error: '' @ str_exc e),
                          content = None\<rparr>, s, [])
                | Inr (rsync_command, rsync_stdout, rsync_stderr, rsync_returncode) \<Rightarrow>
                    let outputs1 =
                          outputs @ [''$ '' @ rsync_command @ newline @ rsync_stdout @ rsync_stderr]
                    in if rsync_returncode \<noteq> 0 then
                         (Inr \<lparr>status = ''error'',
                               message = Some ''Failed to sync tensorboard script'',
                               output_text = Some (join newline outputs1), content = None\<rparr>,
                          s, [])
                       else
                         (case start_collectors cfg env experiment_path outputs1 s of
                            (resp, s1, evs) \<Rightarrow> (Inr resp, s1, evs)))))"

text \<open>\<^verbatim>\<open>POST /api/stop-monitoring\<close>: the flag is assigned with no lock taken.\<close>

definition stop_monitoring :: "'f globals \<Rightarrow> api_response \<times> 'f globals \<times> event list" where
  "stop_monitoring s =
     (\<lparr>status = ''stopped'', message = None, output_text = None, content = None\<rparr>,
      s\<lparr>monitoring_active := False\<rparr>,
      [Write Monitoring_active])"

text \<open>
  The file at \<^verbatim>\<open>LOCAL_OUTPUT_PATH\<close> as \<^verbatim>\<open>get_output\<close> meets it: \<^verbatim>\<open>os.path.exists\<close> is
  false; or it is true and the file is opened and read; or it is true and opening or
  reading raises.
\<close>

datatype local_file = Missing | Readable string | Unreadable exc

text \<open>\<^verbatim>\<open>GET /api/output\<close>.\<close>

definition get_output :: "local_file \<Rightarrow> api_response" where
  "get_output f =
     (case f of
        Readable body \<Rightarrow>
          \<lparr>status = ''success'', message = None, output_text = None, content = Some body\<rparr>
      | Missing \<Rightarrow>
          \<lparr>status = ''error'', message = Some ''Output file not found. Please sync first.'',
            output_text = None, content = None\<rparr>
      | Unreadable e \<Rightarrow>
          \<lparr>status = ''error'', message = Some (str_exc e), output_text = None, content = None\<rparr>)"

subsection \<open>Sequences of calls\<close>

text \<open>
  Every entry point that touches the shared state: the two collectors (also one
  iteration of each monitor thread), the unused experiment lister, and the handlers.
\<close>

datatype call =
  Fetch_nvidia_smi
| Fetch_tensorboard_data string
| List_tensorboard_experiments
| Get_tensorboard_data string
| Get_nvidia_smi_data
| Start_monitoring "exc + string option"
| Stop_monitoring

fun exec_call :: "config \<Rightarrow> 'f env \<Rightarrow> call \<Rightarrow> 'f globals \<Rightarrow> 'f globals \<times> event list" where
  "exec_call cfg env Fetch_nvidia_smi s = snd (fetch_nvidia_smi cfg env s)"
| "exec_call cfg env (Fetch_tensorboard_data p) s = snd (fetch_tensorboard_data cfg env p s)"
| "exec_call cfg env List_tensorboard_experiments s = snd (list_tensorboard_experiments cfg env s)"
| "exec_call cfg env (Get_tensorboard_data p) s = snd (get_tensorboard_data p s)"
| "exec_call cfg env Get_nvidia_smi_data s = snd (get_nvidia_smi_data cfg env s)"
| "exec_call cfg env (Start_monitoring req) s = snd (start_monitoring cfg env req s)"
| "exec_call cfg env Stop_monitoring s = snd (stop_monitoring s)"

text \<open>Calls one after the other, each with the outside world it meets.\<close>

fun run_calls :: "config \<Rightarrow> ('f env \<times> call) list \<Rightarrow> 'f globals \<Rightarrow> 'f globals" where
  "run_calls cfg [] s = s"
| "run_calls cfg ((env, c) # cs) s = run_calls cfg cs (fst (exec_call cfg env c s))"

text \<open>The window's invariant: five sequences of one length, at most 100.\<close>

definition window_ok :: "'f nvidia_smi \<Rightarrow> bool" where
  "window_ok d =
     (length (temperature d) = length (timestamps d)
      \<and> length (power' d) = length (timestamps d)
      \<and> length (memory_used d) = length (timestamps d)
      \<and> length (memory_total d) = length (timestamps d)
      \<and> length (timestamps d) \<le> 100)"

subsection \<open>Concrete surroundings for the examples\<close>

definition demo_config :: config where
  "demo_config =
     \<lparr>SSH_HOST = ''gpu'', SSH_PORT = ''22'', SSH_KEY_PATH = ''/k'', SSH_USERNAME = ''u'',
      TENSORBOARD_LOGS_PATH = ''/logs'', IMAGE_SAMPLES_PATH = ''/img'',
      REMOTE_VENV_PATH = ''/venv'', MAIN_THREAD_OUTPUT = ''/out.txt'',
      LOCAL_IMAGES_PATH = ''static/images'', LOCAL_OUTPUT_PATH = ''static/output.txt'',
      TENSORBOARD_SCRIPT_PATH = ''extract_tensorboard.py''\<rparr>"

text \<open>A stand-in for \<^verbatim>\<open>float\<close> with the float kept as its text: digits and dots only.\<close>

definition demo_float :: "string \<Rightarrow> exc + string" where
  "demo_float s =
     (if s \<noteq> [] \<and> list_all (\<lambda>c. c \<in> set ''0123456789.'') s then Inr s
      else Inl (ValueError ''could not convert string to float''))"

text \<open>Every process prints \<open>out\<close> and \<open>err\<close> and exits with \<open>rc\<close>; \<^verbatim>\<open>json.loads\<close> gives \<open>j\<close>.\<close>

definition const_env :: "string \<Rightarrow> string \<Rightarrow> int \<Rightarrow> exc + string json \<Rightarrow> string env" where
  "const_env out err rc j =
     \<lparr>subprocess_run = (\<lambda>argv. Inr \<lparr>cp_stdout = out, cp_stderr = err, cp_returncode = rc\<rparr>),
      json_loads = (\<lambda>s. j),
      py_float = demo_float,
      now_isoformat = ''2024-01-01T00:00:00''\<rparr>"

text \<open>No process can be spawned: the \<^verbatim>\<open>ssh\<close> executable is missing.\<close>

definition no_ssh_env :: "string env" where
  "no_ssh_env =
     \<lparr>subprocess_run = (\<lambda>argv. Inl (OSError ''[Errno 2] No such file or directory'')),
      json_loads = (\<lambda>s. Inl (JSONDecodeError ''Expecting value'')),
      py_float = demo_float,
      now_isoformat = ''2024-01-01T00:00:00''\<rparr>"

text \<open>The remote \<^verbatim>\<open>mkdir\<close> (run through ssh) exits with 1, every other process with 0.\<close>

definition mkdir_fails_env :: "string env" where
  "mkdir_fails_env =
     \<lparr>subprocess_run = (\<lambda>argv.
        if argv = ssh_argv demo_config mkdir_command
        then Inr \<lparr>cp_stdout = [], cp_stderr = ''mkdir: Permission denied'', cp_returncode = 1\<rparr>
        else Inr \<lparr>cp_stdout = [], cp_stderr = [], cp_returncode = 0\<rparr>),
      json_loads = (\<lambda>s. Inl (JSONDecodeError ''Expecting value'')),
      py_float = demo_float,
      now_isoformat = ''2024-01-01T00:00:00''\<rparr>"

text \<open>Every process succeeds and prints nothing.\<close>

definition quiet_env :: "string env" where
  "quiet_env = const_env [] [] 0 (Inl (JSONDecodeError ''Expecting value''))"

text \<open>The helper's report of a failure, and a remote side that prints it and exits with 0.\<close>

definition error_json_text :: string where
  "error_json_text = ''{'' @ dquote @ ''error'' @ dquote @ '': '' @ dquote @ ''x'' @ dquote @ ''}''"

definition reported_error_env :: "string env" where
  "reported_error_env = const_env error_json_text [] 0 (Inr (JObj [(''error'', JStr ''x'')]))"

text \<open>One scalar tag with two events, and a remote side whose output parses to it.\<close>

definition loss_scalars :: "string json" where
  "loss_scalars =
     JObj [(''loss'', JObj [(''steps'', JArr [JInt 1, JInt 2]),
                            (''values'', JArr [JFloat ''0.5'', JFloat ''0.25'']),
                            (''wall_times'', JArr [JFloat ''1.0'', JFloat ''2.0''])])]"


text \<open>The state after a start with no experiment path and no GPU sample.\<close>

definition one_session :: "string globals" where
  "one_session =
     initial_globals\<lparr>monitoring_active := True, monitoring_threads := [Nvidia_smi_monitor_thread]\<rparr>"

text \<open>The sensor answers with one well-formed line.\<close>

definition sample_env :: "string env" where
  "sample_env = const_env ''45, 120.5, 1000, 8000'' [] 0 (Inl (JSONDecodeError ''Expecting value''))"

text \<open>A later poll: another well-formed line and a later clock.\<close>

definition late_env :: "string env" where
  "late_env =
     \<lparr>subprocess_run = (\<lambda>argv. Inr \<lparr>cp_stdout = ''50, 130.0, 2000, 8000'', cp_stderr = [],
                                        cp_returncode = 0\<rparr>),
      json_loads = (\<lambda>s. Inl (JSONDecodeError ''Expecting value'')),
      py_float = demo_float,
      now_isoformat = ''2024-01-01T00:16:40''\<rparr>"

text \<open>The window after \<open>k\<close> polls that all met \<open>sample_env\<close>.\<close>

definition steady_window :: "nat \<Rightarrow> string nvidia_smi" where
  "steady_window k =
     \<lparr>timestamps = replicate k ''2024-01-01T00:00:00'', temperature = replicate k ''45'',
      power' = replicate k ''120.5'', memory_used = replicate k ''1000'',
      memory_total = replicate k ''8000''\<rparr>"

text \<open>The script push exits with 12, every other process with 0 and no output.\<close>

definition push_fails_env :: "string env" where
  "push_fails_env =
     \<lparr>subprocess_run = (\<lambda>argv.
        if argv = rsync_argv demo_config (TENSORBOARD_SCRIPT_PATH demo_config) REMOTE_SCRIPT_PATH False
        then Inr \<lparr>cp_stdout = [], cp_stderr = ''rsync: connection unexpectedly closed'',
                  cp_returncode = 12\<rparr>
        else Inr \<lparr>cp_stdout = [], cp_stderr = [], cp_returncode = 0\<rparr>),
      json_loads = (\<lambda>s. Inl (JSONDecodeError ''Expecting value'')),
      py_float = demo_float,
      now_isoformat = ''2024-01-01T00:00:00''\<rparr>"

text \<open>A sensor line with four numbers followed by two tokens that are no numbers.\<close>

definition trailing_garbage_env :: "string env" where
  "trailing_garbage_env =
     const_env ''45, 120.5, 1000, 8000, garbage, N/A'' [] 0 (Inl (JSONDecodeError ''Expecting value''))"

text \<open>The state after 100 polls that all met \<open>sample_env\<close>.\<close>

definition full_window :: "string globals" where
  "full_window = run_calls demo_config (replicate 100 (sample_env, Fetch_nvidia_smi)) initial_globals"

section \<open>Properties\<close>

subsection \<open>What each collector does to the shared state\<close>


lemma run_ssh_Inr:
  "subprocess_run env (ssh_argv cfg c) = Inr r \<Longrightarrow>
   run_ssh_command cfg env c = Inr (cp_stdout r, cp_stderr r, cp_returncode r)"
  by (simp add: run_ssh_command_def)

lemma run_ssh_Inl:
  "subprocess_run env (ssh_argv cfg c) = Inl e \<Longrightarrow> run_ssh_command cfg env c = Inl e"
  by (simp add: run_ssh_command_def)

lemma last_n_length: "length (last_n n xs) = min n (length xs)"
  by (simp add: last_n_def)

lemma window_ok_record_sample:
  "window_ok d \<Longrightarrow> window_ok (fst (record_sample ts sample d))"
  by (cases sample)
     (auto simp: window_ok_def record_sample_def append_sample_def trim_all_def last_n_length Let_def)

lemma fetch_nvidia_smi_cases:
  "snd (fetch_nvidia_smi cfg env s) = (s, [])
   \<or> (\<exists>sample. snd (fetch_nvidia_smi cfg env s)
         = (s\<lparr>nvidia_smi_data := fst (record_sample (now_isoformat env) sample (nvidia_smi_data s))\<rparr>,
            snd (record_sample (now_isoformat env) sample (nvidia_smi_data s))))"
proof (cases "run_ssh_command cfg env nvidia_command")
  case (Inl e)
  then show ?thesis by (simp add: fetch_nvidia_smi_def)
next
  case (Inr t)
  obtain out err rc where t: "t = (out, err, rc)" by (cases t) auto
  show ?thesis
  proof (cases "rc \<noteq> 0 \<or> strip out = []")
    case True
    then show ?thesis using Inr t by (auto simp: fetch_nvidia_smi_def)
  next
    case False
    show ?thesis
    proof (cases "parse_gpu_fields env (split_on (CHR '','') (strip out))")
      case (Inl e)
      then show ?thesis using Inr t False by (simp add: fetch_nvidia_smi_def)
    next
      case (Inr sample)
      have "snd (fetch_nvidia_smi cfg env s)
            = (s\<lparr>nvidia_smi_data := fst (record_sample (now_isoformat env) sample (nvidia_smi_data s))\<rparr>,
               snd (record_sample (now_isoformat env) sample (nvidia_smi_data s)))"
        using \<open>run_ssh_command cfg env nvidia_command = Inr t\<close> t False Inr
        by (simp add: fetch_nvidia_smi_def split: prod.splits)
      then show ?thesis by blast
    qed
  qed
qed


lemma fetch_nvidia_smi_window_ok:
  "window_ok (nvidia_smi_data s) \<Longrightarrow>
   window_ok (nvidia_smi_data (fst (snd (fetch_nvidia_smi cfg env s))))"
  using fetch_nvidia_smi_cases [of cfg env s]
  by (auto simp: window_ok_record_sample)

lemma fetch_nvidia_smi_others:
  "tensorboard_data (fst (snd (fetch_nvidia_smi cfg env s))) = tensorboard_data s
   \<and> tensorboard_experiments (fst (snd (fetch_nvidia_smi cfg env s))) = tensorboard_experiments s
   \<and> monitoring_active (fst (snd (fetch_nvidia_smi cfg env s))) = monitoring_active s
   \<and> monitoring_threads (fst (snd (fetch_nvidia_smi cfg env s))) = monitoring_threads s"
  using fetch_nvidia_smi_cases [of cfg env s] by auto

lemma fetch_tensorboard_data_cases:
  "snd (fetch_tensorboard_data cfg env p s) = (s, [])
   \<or> (\<exists>d. snd (fetch_tensorboard_data cfg env p s)
         = (s\<lparr>tensorboard_data := (tensorboard_data s)(lstrip_slash p \<mapsto> d)\<rparr>,
            [Acquire, Write Tensorboard_data, Release])
        \<and> data (fst (fetch_tensorboard_data cfg env p s)) = Some d)"
proof (cases "run_ssh_command cfg env (tb_command cfg p)")
  case (Inl e)
  then show ?thesis by (simp add: fetch_tensorboard_data_def)
next
  case (Inr t)
  obtain out err rc where t: "t = (out, err, rc)" by (cases t) auto
  show ?thesis
  proof (cases "rc \<noteq> 0 \<or> out = []")
    case True
    then show ?thesis using Inr t by (auto simp: fetch_tensorboard_data_def)
  next
    case False
    show ?thesis
    proof (cases "bind_exc (json_loads env out) (\<lambda>d. bind_exc (error_field d) (\<lambda>ef. Inr (d, ef)))")
      case (Inl e)
      then show ?thesis using Inr t False by (simp add: fetch_tensorboard_data_def)
    next
      case inner: (Inr de)
      obtain d ef where de: "de = (d, ef)" by (cases de) auto
      show ?thesis
        using Inr t False inner de
        by (cases ef) (simp_all add: fetch_tensorboard_data_def)
    qed
  qed
qed

lemma fetch_tensorboard_data_window:
  "nvidia_smi_data (fst (snd (fetch_tensorboard_data cfg env p s))) = nvidia_smi_data s
   \<and> monitoring_active (fst (snd (fetch_tensorboard_data cfg env p s))) = monitoring_active s
   \<and> monitoring_threads (fst (snd (fetch_tensorboard_data cfg env p s))) = monitoring_threads s"
  using fetch_tensorboard_data_cases [of cfg env p s] by auto

lemma list_tensorboard_experiments_cases:
  "snd (list_tensorboard_experiments cfg env s) = (s, [])
   \<or> (\<exists>exps. snd (list_tensorboard_experiments cfg env s)
         = (s\<lparr>tensorboard_experiments := exps\<rparr>,
            [Acquire, Write Tensorboard_experiments, Release]))"
  by (auto simp: list_tensorboard_experiments_def Let_def split: sum.splits prod.splits)

lemma guarded_append:
  "guarded vs h (xs @ ys) = (guarded vs h xs \<and> guarded vs (lock_after h xs) ys)"
  by (induction vs h xs rule: guarded.induct) auto

lemma lock_after_append:
  "lock_after h (xs @ ys) = lock_after (lock_after h xs) ys"
  by (induction h xs rule: lock_after.induct) auto

lemma record_sample_log:
  "guarded vs False (snd (record_sample ts sample d))
   \<and> lock_after False (snd (record_sample ts sample d)) = False"
  by (simp add: record_sample_def Let_def eval_nat_numeral)

lemma fetch_nvidia_smi_log:
  "guarded vs False (snd (snd (fetch_nvidia_smi cfg env s)))
   \<and> lock_after False (snd (snd (fetch_nvidia_smi cfg env s))) = False"
  using fetch_nvidia_smi_cases [of cfg env s] record_sample_log
  by (metis guarded.simps(1) lock_after.simps(1) snd_conv)

lemma fetch_tensorboard_data_log:
  "guarded vs False (snd (snd (fetch_tensorboard_data cfg env p s)))
   \<and> lock_after False (snd (snd (fetch_tensorboard_data cfg env p s))) = False"
  using fetch_tensorboard_data_cases [of cfg env p s] by auto


lemma fetch_tb_keeps:
  assumes "fetch_tensorboard_data cfg env p s = (r, s1, ev)"
  shows "nvidia_smi_data s1 = nvidia_smi_data s" and "monitoring_active s1 = monitoring_active s"
    and "monitoring_threads s1 = monitoring_threads s"
    and "guarded vs False ev" and "lock_after False ev = False"
  using assms fetch_tensorboard_data_window [of cfg env p s]
    fetch_tensorboard_data_log [of vs cfg env p s]
  by simp_all

lemma fetch_gpu_keeps:
  assumes "fetch_nvidia_smi cfg env s = (r, s1, ev)"
  shows "tensorboard_data s1 = tensorboard_data s" and "monitoring_active s1 = monitoring_active s"
    and "monitoring_threads s1 = monitoring_threads s"
    and "tensorboard_experiments s1 = tensorboard_experiments s"
    and "guarded vs False ev" and "lock_after False ev = False"
    and "window_ok (nvidia_smi_data s) \<Longrightarrow> window_ok (nvidia_smi_data s1)"
  using assms fetch_nvidia_smi_others [of cfg env s] fetch_nvidia_smi_log [of vs cfg env s]
    fetch_nvidia_smi_window_ok [of s cfg env]
  by simp_all

lemma start_collectors_props:
  assumes "start_collectors cfg env p outs s = (resp, s', evs)"
  shows "status resp = ''started'' \<and> monitoring_active s'
    \<and> (window_ok (nvidia_smi_data s) \<longrightarrow> window_ok (nvidia_smi_data s'))
    \<and> guarded locked_vars False evs
    \<and> (\<exists>rest. evs = Write Monitoring_active # Write Monitoring_threads # rest)"
proof -
  let ?s1 = "s\<lparr>monitoring_active := True, monitoring_threads := []\<rparr>"
  obtain r2 s2 ev2 where f2: "fetch_nvidia_smi cfg env ?s1 = (r2, s2, ev2)"
    by (cases "fetch_nvidia_smi cfg env ?s1") auto
  note k2 = fetch_gpu_keeps [OF f2]
  have a2: "monitoring_active s2" using k2(2) by simp
  have w2: "window_ok (nvidia_smi_data s) \<Longrightarrow> window_ok (nvidia_smi_data s2)"
    using k2(7) by simp
  show ?thesis
  proof (cases "truthy p")
    case False
    then have eq: "s' = s2\<lparr>monitoring_threads := monitoring_threads s2 @ [Nvidia_smi_monitor_thread]\<rparr>"
      "evs = [Write Monitoring_active, Write Monitoring_threads] @ ev2 @ []
             @ [Spawn Nvidia_smi_monitor_thread, Write Monitoring_threads]"
      "status resp = ''started''"
      using assms f2 by (auto simp: start_collectors_def Let_def)
    have "guarded locked_vars False evs"
      using eq(2) k2(5) [of locked_vars] k2(6)
      by (simp add: guarded_append lock_after_append locked_vars_def)
    then show ?thesis using eq a2 w2 by simp
  next
    case True
    obtain r3 s3 ev3 where f3: "fetch_tensorboard_data cfg env (the p) s2 = (r3, s3, ev3)"
      by (cases "fetch_tensorboard_data cfg env (the p) s2") auto
    note k3 = fetch_tb_keeps [OF f3]
    have eq: "s' = s3\<lparr>monitoring_threads := monitoring_threads s3 @ [Nvidia_smi_monitor_thread]
                        @ [Tensorboard_monitor_thread (the p)]\<rparr>"
      "evs = [Write Monitoring_active, Write Monitoring_threads] @ ev2 @ ev3
             @ [Spawn Nvidia_smi_monitor_thread, Write Monitoring_threads]
             @ [Spawn (Tensorboard_monitor_thread (the p)), Write Monitoring_threads]"
      "status resp = ''started''"
      using True assms f2 f3 by (auto simp: start_collectors_def Let_def)
    have "guarded locked_vars False evs"
      using eq(2) k2(5) [of locked_vars] k2(6) k3(4) [of locked_vars] k3(5)
      by (simp add: guarded_append lock_after_append locked_vars_def)
    then show ?thesis using eq a2 w2 k3(1) k3(2) by simp
  qed
qed


lemma start_monitoring_outcomes:
  "(monitoring_active s \<and> start_monitoring cfg env req s
      = (Inr \<lparr>status = ''already_running'', message = None,
               output_text = Some ''Monitoring already active'', content = None\<rparr>, s, []))
   \<or> (\<exists>e. start_monitoring cfg env req s = (Inl e, s, []))
   \<or> (\<exists>resp. status resp = ''error'' \<and> start_monitoring cfg env req s = (Inr resp, s, []))
   \<or> (\<exists>p outs. \<not> monitoring_active s \<and> req = Inr p
         \<and> start_monitoring cfg env req s
            = (Inr (fst (start_collectors cfg env p outs s)),
               snd (start_collectors cfg env p outs s)))"
proof (cases "monitoring_active s")
  case True
  then show ?thesis by (simp add: start_monitoring_def)
next
  case na: False
  show ?thesis
  proof (cases req)
    case (Inl e)
    then show ?thesis using na by (simp add: start_monitoring_def)
  next
    case rq: (Inr p)
    show ?thesis
    proof (cases "run_ssh_command cfg env mkdir_command")
      case (Inl e)
      then show ?thesis using na rq by (simp add: start_monitoring_def)
    next
      case mk: (Inr t)
      obtain out err rc where t: "t = (out, err, rc)" by (cases t) auto
      show ?thesis
      proof (cases "run_rsync cfg env (TENSORBOARD_SCRIPT_PATH cfg) REMOTE_SCRIPT_PATH False")
        case (Inl e)
        then show ?thesis using na rq mk t by (simp add: start_monitoring_def)
      next
        case rs: (Inr u)
        obtain rcmd rout rerr rrc where u: "u = (rcmd, rout, rerr, rrc)" by (cases u) auto
        show ?thesis
        proof (cases "rrc = 0")
          case False
          then show ?thesis using na rq mk t rs u by (simp add: start_monitoring_def)
        next
          case True
          let ?outs = "[''$ '' @ mkdir_command @ newline @ out @ err]
                       @ [''$ '' @ rcmd @ newline @ rout @ rerr]"
          have "start_monitoring cfg env req s
                = (Inr (fst (start_collectors cfg env p ?outs s)),
                   snd (start_collectors cfg env p ?outs s))"
            using na rq mk t rs u True
            by (simp add: start_monitoring_def split: prod.splits)
          then show ?thesis using na rq by blast
        qed
      qed
    qed
  qed
qed

lemma start_monitoring_cases:
  "snd (start_monitoring cfg env req s) = (s, [])
   \<or> (\<exists>p outs. \<not> monitoring_active s \<and> req = Inr p
         \<and> start_monitoring cfg env req s
            = (Inr (fst (start_collectors cfg env p outs s)),
               snd (start_collectors cfg env p outs s)))"
  using start_monitoring_outcomes [of s cfg env req] by auto

lemma exec_call_props:
  "(window_ok (nvidia_smi_data s) \<longrightarrow> window_ok (nvidia_smi_data (fst (exec_call cfg env c s))))
   \<and> guarded locked_vars False (snd (exec_call cfg env c s))"
proof (cases c)
  case Fetch_nvidia_smi
  then show ?thesis
    using fetch_nvidia_smi_window_ok [of s cfg env] fetch_nvidia_smi_log [of locked_vars cfg env s]
    by simp
next
  case (Fetch_tensorboard_data p)
  then show ?thesis
    using fetch_tensorboard_data_window [of cfg env p s]
      fetch_tensorboard_data_log [of locked_vars cfg env p s]
    by simp
next
  case List_tensorboard_experiments
  then show ?thesis
    using list_tensorboard_experiments_cases [of cfg env s]
    by (auto simp: locked_vars_def)
next
  case (Get_tensorboard_data p)
  then show ?thesis by (simp add: get_tensorboard_data_def Let_def)
next
  case Get_nvidia_smi_data
  obtain r s1 ev where f: "fetch_nvidia_smi cfg env s = (r, s1, ev)"
    by (cases "fetch_nvidia_smi cfg env s") auto
  note k = fetch_gpu_keeps [OF f]
  show ?thesis
    using Get_nvidia_smi_data f k(5) [of locked_vars] k(6) k(7)
    by (simp add: get_nvidia_smi_data_def guarded_append)
next
  case (Start_monitoring req)
  show ?thesis
    using start_monitoring_cases [of cfg env req s]
  proof
    assume "snd (start_monitoring cfg env req s) = (s, [])"
    then show ?thesis using Start_monitoring by simp
  next
    assume "\<exists>p outs. \<not> monitoring_active s \<and> req = Inr p
         \<and> start_monitoring cfg env req s
            = (Inr (fst (start_collectors cfg env p outs s)),
               snd (start_collectors cfg env p outs s))"
    then obtain p outs where e: "start_monitoring cfg env req s
            = (Inr (fst (start_collectors cfg env p outs s)),
               snd (start_collectors cfg env p outs s))" by blast
    obtain resp s' evs where sc: "start_collectors cfg env p outs s = (resp, s', evs)"
      by (cases "start_collectors cfg env p outs s") auto
    show ?thesis
      using Start_monitoring e sc start_collectors_props [OF sc] by simp
  qed
next
  case Stop_monitoring
  then show ?thesis by (simp add: stop_monitoring_def locked_vars_def)
qed

lemma run_calls_window_ok:
  "window_ok (nvidia_smi_data s) \<Longrightarrow> window_ok (nvidia_smi_data (run_calls cfg cs s))"
proof (induction cs arbitrary: s)
  case Nil
  then show ?case by simp
next
  case (Cons a cs)
  obtain env c where a: "a = (env, c)" by (cases a) auto
  show ?case
    using Cons.prems exec_call_props [of s cfg env c] a
    by (simp add: Cons.IH)
qed

lemma initial_window_ok: "window_ok (nvidia_smi_data initial_globals)"
  by (simp add: window_ok_def initial_globals_def)

subsection \<open>The GPU window\<close>

lemma last_n_full: "length xs = n \<Longrightarrow> 0 < n \<Longrightarrow> last_n n (xs @ [x]) = tl xs @ [x]"
  by (cases xs) (simp_all add: last_n_def)

lemma float_at_fails:
  "length vals \<le> i \<or> (\<exists>e. py_float env (strip (vals ! i)) = Inl e)
   \<Longrightarrow> \<exists>e. float_at env vals i = Inl e"
  by (auto simp: float_at_def py_index_def bind_exc_def)

lemma parse_gpu_fields_fails:
  assumes "length vals < 4 \<or> (\<exists>i<4. \<exists>e. py_float env (strip (vals ! i)) = Inl e)"
  shows "\<exists>e. parse_gpu_fields env vals = Inl e"
proof -
  have "\<exists>i<4. length vals \<le> i \<or> (\<exists>e. py_float env (strip (vals ! i)) = Inl e)"
  proof (cases "length vals < 4")
    case True
    then show ?thesis by blast
  next
    case False
    then show ?thesis using assms by blast
  qed
  then obtain i where i: "i < 4"
    and bad: "length vals \<le> i \<or> (\<exists>e. py_float env (strip (vals ! i)) = Inl e)"
    by blast
  from float_at_fails [OF bad] obtain e where e: "float_at env vals i = Inl e" by blast
  from i have "i = 0 \<or> i = 1 \<or> i = 2 \<or> i = 3" by arith
  then show ?thesis
    using e by (auto simp: parse_gpu_fields_def bind_exc_def split: sum.splits)
qed

lemma parse_gpu_fields_ok:
  assumes "4 \<le> length vals"
    and "py_float env (strip (vals ! 0)) = Inr temp"
    and "py_float env (strip (vals ! 1)) = Inr pw"
    and "py_float env (strip (vals ! 2)) = Inr mu"
    and "py_float env (strip (vals ! 3)) = Inr mt"
  shows "parse_gpu_fields env vals = Inr (temp, pw, mu, mt)"
proof -
  have "float_at env vals 0 = Inr temp" "float_at env vals 1 = Inr pw"
    "float_at env vals 2 = Inr mu" "float_at env vals 3 = Inr mt"
    using assms by (auto simp: float_at_def py_index_def bind_exc_def)
  then show ?thesis by (simp add: parse_gpu_fields_def bind_exc_def)
qed

lemma fetch_nvidia_smi_well_formed:
  assumes "subprocess_run env (ssh_argv cfg nvidia_command) = Inr r"
    and "cp_returncode r = 0"
    and "4 \<le> length (split_on (CHR '','') (strip (cp_stdout r)))"
    and "py_float env (strip (split_on (CHR '','') (strip (cp_stdout r)) ! 0)) = Inr temp"
    and "py_float env (strip (split_on (CHR '','') (strip (cp_stdout r)) ! 1)) = Inr pw"
    and "py_float env (strip (split_on (CHR '','') (strip (cp_stdout r)) ! 2)) = Inr mu"
    and "py_float env (strip (split_on (CHR '','') (strip (cp_stdout r)) ! 3)) = Inr mt"
  shows "fetch_nvidia_smi cfg env s
    = (\<lparr>command = nvidia_command, stdout = cp_stdout r, stderr = cp_stderr r, returncode = 0\<rparr>,
       s\<lparr>nvidia_smi_data :=
           fst (record_sample (now_isoformat env) (temp, pw, mu, mt) (nvidia_smi_data s))\<rparr>,
       snd (record_sample (now_isoformat env) (temp, pw, mu, mt) (nvidia_smi_data s)))"
proof -
  have ne: "strip (cp_stdout r) \<noteq> []"
  proof
    assume "strip (cp_stdout r) = []"
    then have "length (split_on (CHR '','') (strip (cp_stdout r))) = 1" by simp
    then show False using assms(3) by simp
  qed
  have p: "parse_gpu_fields env (split_on (CHR '','') (strip (cp_stdout r))) = Inr (temp, pw, mu, mt)"
    using assms(3-7) by (rule parse_gpu_fields_ok)
  show ?thesis
    using assms(1,2) ne p
    by (simp add: fetch_nvidia_smi_def run_ssh_command_def Let_def split: prod.splits)
qed

lemma fetch_nvidia_smi_rejected:
  assumes "subprocess_run env (ssh_argv cfg nvidia_command) = Inl e
     \<or> (subprocess_run env (ssh_argv cfg nvidia_command) = Inr r
        \<and> (cp_returncode r \<noteq> 0
           \<or> length (split_on (CHR '','') (strip (cp_stdout r))) < 4
           \<or> (\<exists>i<4. \<exists>e'. py_float env (strip (split_on (CHR '','') (strip (cp_stdout r)) ! i))
                  = Inl e')))"
  shows "snd (fetch_nvidia_smi cfg env s) = (s, [])"
  using assms
proof
  assume "subprocess_run env (ssh_argv cfg nvidia_command) = Inl e"
  then show ?thesis by (simp add: fetch_nvidia_smi_def run_ssh_command_def)
next
  assume a: "subprocess_run env (ssh_argv cfg nvidia_command) = Inr r
        \<and> (cp_returncode r \<noteq> 0
           \<or> length (split_on (CHR '','') (strip (cp_stdout r))) < 4
           \<or> (\<exists>i<4. \<exists>e'. py_float env (strip (split_on (CHR '','') (strip (cp_stdout r)) ! i))
                  = Inl e'))"
  show ?thesis
  proof (cases "cp_returncode r = 0")
    case False
    then show ?thesis using a by (simp add: fetch_nvidia_smi_def run_ssh_command_def)
  next
    case True
    then have "length (split_on (CHR '','') (strip (cp_stdout r))) < 4
           \<or> (\<exists>i<4. \<exists>e'. py_float env (strip (split_on (CHR '','') (strip (cp_stdout r)) ! i))
                  = Inl e')"
      using a by blast
    then obtain e' where "parse_gpu_fields env (split_on (CHR '','') (strip (cp_stdout r))) = Inl e'"
      using parse_gpu_fields_fails by blast
    then show ?thesis
      using a True by (simp add: fetch_nvidia_smi_def run_ssh_command_def Let_def)
  qed
qed

lemma record_sample_short:
  assumes "window_ok d" and "length (timestamps d) < 100"
  shows "fst (record_sample ts (temp, pw, mu, mt) d)
    = \<lparr>timestamps = timestamps d @ [ts], temperature = temperature d @ [temp],
       power' = power' d @ [pw], memory_used = memory_used d @ [mu],
       memory_total = memory_total d @ [mt]\<rparr>"
  using assms by (simp add: record_sample_def append_sample_def Let_def)

lemma record_sample_full:
  assumes "window_ok d" and "length (timestamps d) = 100"
  shows "fst (record_sample ts (temp, pw, mu, mt) d)
    = \<lparr>timestamps = tl (timestamps d) @ [ts], temperature = tl (temperature d) @ [temp],
       power' = tl (power' d) @ [pw], memory_used = tl (memory_used d) @ [mu],
       memory_total = tl (memory_total d) @ [mt]\<rparr>"
  using assms
  by (simp add: record_sample_def append_sample_def trim_all_def Let_def window_ok_def last_n_full)

lemma record_sample_last_n:
  assumes "window_ok d"
  shows "fst (record_sample ts (temp, pw, mu, mt) d)
    = \<lparr>timestamps = last_n 100 (timestamps d @ [ts]),
       temperature = last_n 100 (temperature d @ [temp]),
       power' = last_n 100 (power' d @ [pw]),
       memory_used = last_n 100 (memory_used d @ [mu]),
       memory_total = last_n 100 (memory_total d @ [mt])\<rparr>"
  using assms
  by (simp add: record_sample_def append_sample_def trim_all_def Let_def window_ok_def last_n_def)


lemma sample_env_fetch:
  "fst (snd (fetch_nvidia_smi demo_config sample_env s))
   = s\<lparr>nvidia_smi_data :=
         fst (record_sample ''2024-01-01T00:00:00'' (''45'', ''120.5'', ''1000'', ''8000'')
               (nvidia_smi_data s))\<rparr>"
proof -
  have st: "strip ''45, 120.5, 1000, 8000'' = ''45, 120.5, 1000, 8000''"
    by (simp add: strip_def is_space_def)
  have sp: "split_on (CHR '','') ''45, 120.5, 1000, 8000'' = [''45'', '' 120.5'', '' 1000'', '' 8000'']"
    by simp
  have f: "strip ''45'' = ''45''" "strip '' 120.5'' = ''120.5''" "strip '' 1000'' = ''1000''"
    "strip '' 8000'' = ''8000''"
    by (simp_all add: strip_def is_space_def)
  have "fetch_nvidia_smi demo_config sample_env s
    = (\<lparr>command = nvidia_command, stdout = cp_stdout \<lparr>cp_stdout = ''45, 120.5, 1000, 8000'',
          cp_stderr = [], cp_returncode = 0\<rparr>, stderr = cp_stderr \<lparr>cp_stdout = ''45, 120.5, 1000, 8000'',
          cp_stderr = [], cp_returncode = 0\<rparr>, returncode = 0\<rparr>,
       s\<lparr>nvidia_smi_data :=
           fst (record_sample (now_isoformat sample_env) (''45'', ''120.5'', ''1000'', ''8000'')
                 (nvidia_smi_data s))\<rparr>,
       snd (record_sample (now_isoformat sample_env) (''45'', ''120.5'', ''1000'', ''8000'')
             (nvidia_smi_data s)))"
    by (rule fetch_nvidia_smi_well_formed)
       (simp_all add: sample_env_def const_env_def st sp f demo_float_def)
  then show ?thesis by (simp add: sample_env_def const_env_def)
qed

lemma steady_window_ok: "k \<le> 100 \<Longrightarrow> window_ok (steady_window k)"
  by (simp add: window_ok_def steady_window_def)

lemma run_samples_steady:
  "k + n \<le> 100 \<Longrightarrow> nvidia_smi_data s = steady_window k \<Longrightarrow>
   nvidia_smi_data (run_calls demo_config (replicate n (sample_env, Fetch_nvidia_smi)) s)
   = steady_window (k + n)"
proof (induction n arbitrary: s k)
  case 0
  then show ?case by simp
next
  case (Suc n)
  let ?s1 = "fst (exec_call demo_config sample_env Fetch_nvidia_smi s)"
  have k: "k < 100" using Suc.prems(1) by simp
  have "nvidia_smi_data ?s1
        = fst (record_sample ''2024-01-01T00:00:00'' (''45'', ''120.5'', ''1000'', ''8000'')
                (steady_window k))"
    using Suc.prems(2) by (simp add: sample_env_fetch)
  also have "\<dots> = steady_window (Suc k)"
    using record_sample_short [of "steady_window k" "''2024-01-01T00:00:00''" "''45''" "''120.5''"
        "''1000''" "''8000''"] steady_window_ok [of k] k
    by (simp add: steady_window_def replicate_append_same)
  finally have s1: "nvidia_smi_data ?s1 = steady_window (Suc k)" .
  have "Suc k + n \<le> 100" using Suc.prems(1) by simp
  from Suc.IH [OF this s1] show ?case by simp
qed

lemma full_window_data: "nvidia_smi_data full_window = steady_window 100"
  using run_samples_steady [of 0 100 initial_globals]
  by (simp add: full_window_def initial_globals_def steady_window_def)

text \<open>
  Claim C1. After any sequence of calls of the collectors and handlers, started from the
  module's initial state and with any behaviour of the remote side, the five sequences
  of the GPU window have one length and that length is at most 100. One more call of the
  GPU sampler in such a state appends exactly when the sensor command is spawned, exits
  with 0 and prints at least four comma-separated fields of which the first four are
  accepted by \<^verbatim>\<open>float\<close>. Then each sequence becomes the last 100 elements of itself
  with the new element at the end: below 100 entries the new element is appended and
  nothing is dropped, and at 100 entries the first (oldest) element of each sequence is
  dropped and the new one is appended. In every other case the call changes nothing.
\<close>

theorem gpu_window_bounded_fifo:
  fixes cfg :: config and cs :: "('f env \<times> call) list" and env :: "'f env"
  defines "S \<equiv> run_calls cfg cs initial_globals"
  defines "W \<equiv> nvidia_smi_data (run_calls cfg cs initial_globals)"
  defines "W' \<equiv> nvidia_smi_data (fst (snd (fetch_nvidia_smi cfg env (run_calls cfg cs initial_globals))))"
  shows "window_ok W
   \<and> (subprocess_run env (ssh_argv cfg nvidia_command) = Inr r \<and> cp_returncode r = 0
       \<and> 4 \<le> length (split_on (CHR '','') (strip (cp_stdout r)))
       \<and> py_float env (strip (split_on (CHR '','') (strip (cp_stdout r)) ! 0)) = Inr temp
       \<and> py_float env (strip (split_on (CHR '','') (strip (cp_stdout r)) ! 1)) = Inr pw
       \<and> py_float env (strip (split_on (CHR '','') (strip (cp_stdout r)) ! 2)) = Inr mu
       \<and> py_float env (strip (split_on (CHR '','') (strip (cp_stdout r)) ! 3)) = Inr mt
      \<longrightarrow>
        W' = \<lparr>timestamps = last_n 100 (timestamps W @ [now_isoformat env]),
              temperature = last_n 100 (temperature W @ [temp]),
              power' = last_n 100 (power' W @ [pw]),
              memory_used = last_n 100 (memory_used W @ [mu]),
              memory_total = last_n 100 (memory_total W @ [mt])\<rparr>
        \<and> (length (timestamps W) < 100 \<longrightarrow>
             W' = \<lparr>timestamps = timestamps W @ [now_isoformat env],
                   temperature = temperature W @ [temp],
                   power' = power' W @ [pw],
                   memory_used = memory_used W @ [mu],
                   memory_total = memory_total W @ [mt]\<rparr>)
        \<and> (length (timestamps W) = 100 \<longrightarrow>
             W' = \<lparr>timestamps = tl (timestamps W) @ [now_isoformat env],
                   temperature = tl (temperature W) @ [temp],
                   power' = tl (power' W) @ [pw],
                   memory_used = tl (memory_used W) @ [mu],
                   memory_total = tl (memory_total W) @ [mt]\<rparr>))
   \<and> (subprocess_run env (ssh_argv cfg nvidia_command) = Inl e
       \<or> (subprocess_run env (ssh_argv cfg nvidia_command) = Inr r
          \<and> (cp_returncode r \<noteq> 0
             \<or> length (split_on (CHR '','') (strip (cp_stdout r))) < 4
             \<or> (\<exists>i<4. \<exists>e'. py_float env (strip (split_on (CHR '','') (strip (cp_stdout r)) ! i))
                    = Inl e')))
      \<longrightarrow> snd (fetch_nvidia_smi cfg env S) = (S, []) \<and> W' = W)"
proof -
  have ok: "window_ok W"
    unfolding W_def by (rule run_calls_window_ok [OF initial_window_ok])
  have good: "W' = fst (record_sample (now_isoformat env) (temp, pw, mu, mt) W)"
    if "subprocess_run env (ssh_argv cfg nvidia_command) = Inr r" "cp_returncode r = 0"
      "4 \<le> length (split_on (CHR '','') (strip (cp_stdout r)))"
      "py_float env (strip (split_on (CHR '','') (strip (cp_stdout r)) ! 0)) = Inr temp"
      "py_float env (strip (split_on (CHR '','') (strip (cp_stdout r)) ! 1)) = Inr pw"
      "py_float env (strip (split_on (CHR '','') (strip (cp_stdout r)) ! 2)) = Inr mu"
      "py_float env (strip (split_on (CHR '','') (strip (cp_stdout r)) ! 3)) = Inr mt"
    unfolding W'_def W_def
    using fetch_nvidia_smi_well_formed [OF that, of "run_calls cfg cs initial_globals"]
    by simp
  have bad: "snd (fetch_nvidia_smi cfg env S) = (S, []) \<and> W' = W"
    if "subprocess_run env (ssh_argv cfg nvidia_command) = Inl e
       \<or> (subprocess_run env (ssh_argv cfg nvidia_command) = Inr r
          \<and> (cp_returncode r \<noteq> 0
             \<or> length (split_on (CHR '','') (strip (cp_stdout r))) < 4
             \<or> (\<exists>i<4. \<exists>e'. py_float env (strip (split_on (CHR '','') (strip (cp_stdout r)) ! i))
                    = Inl e')))"
    unfolding W'_def W_def S_def
    using fetch_nvidia_smi_rejected [OF that, of "run_calls cfg cs initial_globals"]
    by simp
  show ?thesis
    using ok good bad
      record_sample_last_n [OF ok, of "now_isoformat env" temp pw mu mt]
      record_sample_short [OF ok, of "now_isoformat env" temp pw mu mt]
      record_sample_full [OF ok, of "now_isoformat env" temp pw mu mt]
    by (intro conjI impI) (simp_all)
qed

text \<open>
  Claim C1 at a window filled by 100 polls, where a later poll pushes out the oldest
  entry; at the empty window; and at a poll that cannot reach the sensor.
\<close>

theorem gpu_window_bounded_fifo_witness:
  "window_ok (nvidia_smi_data full_window)
   \<and> length (timestamps (nvidia_smi_data full_window)) = 100
   \<and> nvidia_smi_data (fst (snd (fetch_nvidia_smi demo_config late_env full_window)))
     = \<lparr>timestamps = replicate 99 ''2024-01-01T00:00:00'' @ [''2024-01-01T00:16:40''],
        temperature = replicate 99 ''45'' @ [''50''],
        power' = replicate 99 ''120.5'' @ [''130.0''],
        memory_used = replicate 99 ''1000'' @ [''2000''],
        memory_total = replicate 99 ''8000'' @ [''8000'']\<rparr>
   \<and> nvidia_smi_data (fst (snd (fetch_nvidia_smi demo_config late_env initial_globals)))
     = \<lparr>timestamps = [''2024-01-01T00:16:40''], temperature = [''50''], power' = [''130.0''],
        memory_used = [''2000''], memory_total = [''8000'']\<rparr>
   \<and> snd (fetch_nvidia_smi demo_config no_ssh_env full_window) = (full_window, [])"
proof -
  let ?r = "\<lparr>cp_stdout = ''50, 130.0, 2000, 8000'', cp_stderr = [], cp_returncode = 0\<rparr>"
  have st: "strip ''50, 130.0, 2000, 8000'' = ''50, 130.0, 2000, 8000''"
    by (simp add: strip_def is_space_def)
  have sp: "split_on (CHR '','') ''50, 130.0, 2000, 8000'' = [''50'', '' 130.0'', '' 2000'', '' 8000'']"
    by simp
  have f: "strip ''50'' = ''50''" "strip '' 130.0'' = ''130.0''" "strip '' 2000'' = ''2000''"
    "strip '' 8000'' = ''8000''"
    by (simp_all add: strip_def is_space_def)
  have hyp: "subprocess_run late_env (ssh_argv demo_config nvidia_command) = Inr ?r
       \<and> cp_returncode ?r = 0
       \<and> 4 \<le> length (split_on (CHR '','') (strip (cp_stdout ?r)))
       \<and> py_float late_env (strip (split_on (CHR '','') (strip (cp_stdout ?r)) ! 0)) = Inr ''50''
       \<and> py_float late_env (strip (split_on (CHR '','') (strip (cp_stdout ?r)) ! 1)) = Inr ''130.0''
       \<and> py_float late_env (strip (split_on (CHR '','') (strip (cp_stdout ?r)) ! 2)) = Inr ''2000''
       \<and> py_float late_env (strip (split_on (CHR '','') (strip (cp_stdout ?r)) ! 3)) = Inr ''8000''"
    by (simp add: late_env_def st sp f demo_float_def)
  have now: "now_isoformat late_env = ''2024-01-01T00:16:40''" by (simp add: late_env_def)
  have len: "length (timestamps (nvidia_smi_data full_window)) = 100"
    by (simp add: full_window_data steady_window_def)
  have tls: "tl (replicate 100 x) = replicate 99 x" for x :: string
    by (simp add: tl_replicate)
  note full = gpu_window_bounded_fifo [where cfg = demo_config
      and cs = "replicate 100 (sample_env, Fetch_nvidia_smi)" and env = late_env and r = ?r
      and temp = "''50''" and pw = "''130.0''" and mu = "''2000''" and mt = "''8000''",
      folded full_window_def]
  note short = gpu_window_bounded_fifo [where cfg = demo_config
      and cs = "[]" and env = late_env and r = ?r
      and temp = "''50''" and pw = "''130.0''" and mu = "''2000''" and mt = "''8000''"]
  note none = gpu_window_bounded_fifo [where cfg = demo_config
      and cs = "replicate 100 (sample_env, Fetch_nvidia_smi)" and env = no_ssh_env
      and e = "OSError ''[Errno 2] No such file or directory''",
      folded full_window_def]
  have a: "window_ok (nvidia_smi_data full_window)" using full by blast
  have b: "nvidia_smi_data (fst (snd (fetch_nvidia_smi demo_config late_env full_window)))
     = \<lparr>timestamps = replicate 99 ''2024-01-01T00:00:00'' @ [''2024-01-01T00:16:40''],
        temperature = replicate 99 ''45'' @ [''50''],
        power' = replicate 99 ''120.5'' @ [''130.0''],
        memory_used = replicate 99 ''1000'' @ [''2000''],
        memory_total = replicate 99 ''8000'' @ [''8000'']\<rparr>"
  proof -
    have "nvidia_smi_data (fst (snd (fetch_nvidia_smi demo_config late_env full_window)))
      = \<lparr>timestamps = tl (timestamps (nvidia_smi_data full_window)) @ [now_isoformat late_env],
         temperature = tl (temperature (nvidia_smi_data full_window)) @ [''50''],
         power' = tl (power' (nvidia_smi_data full_window)) @ [''130.0''],
         memory_used = tl (memory_used (nvidia_smi_data full_window)) @ [''2000''],
         memory_total = tl (memory_total (nvidia_smi_data full_window)) @ [''8000'']\<rparr>"
      using full hyp len by blast
    then show ?thesis
      using now by (simp add: full_window_data steady_window_def tls)
  qed
  have c: "nvidia_smi_data (fst (snd (fetch_nvidia_smi demo_config late_env initial_globals)))
     = \<lparr>timestamps = [''2024-01-01T00:16:40''], temperature = [''50''], power' = [''130.0''],
        memory_used = [''2000''], memory_total = [''8000'']\<rparr>"
  proof -
    have "length (timestamps (nvidia_smi_data (run_calls demo_config []
            (initial_globals :: string globals)))) < 100"
      by (simp add: initial_globals_def)
    then have "nvidia_smi_data (fst (snd (fetch_nvidia_smi demo_config late_env
            (run_calls demo_config [] initial_globals))))
      = \<lparr>timestamps = timestamps (nvidia_smi_data (run_calls demo_config []
                      (initial_globals :: string globals))) @ [now_isoformat late_env],
         temperature = temperature (nvidia_smi_data (run_calls demo_config []
                      (initial_globals :: string globals))) @ [''50''],
         power' = power' (nvidia_smi_data (run_calls demo_config []
                      (initial_globals :: string globals))) @ [''130.0''],
         memory_used = memory_used (nvidia_smi_data (run_calls demo_config []
                      (initial_globals :: string globals))) @ [''2000''],
         memory_total = memory_total (nvidia_smi_data (run_calls demo_config []
                      (initial_globals :: string globals))) @ [''8000'']\<rparr>"
      using short hyp by blast
    then show ?thesis
      using now by (simp add: initial_globals_def)
  qed
  have d: "snd (fetch_nvidia_smi demo_config no_ssh_env full_window) = (full_window, [])"
    using none by (simp add: no_ssh_env_def)
  show ?thesis using a len b c d by simp
qed

subsection \<open>Lock discipline\<close>

text \<open>
  Claim C2 as stated fails. It says that every mutation of the GPU window, the
  experiment-metrics mapping and the active-session flag happens while the lock is held.
  The stop handler assigns the flag with no lock taken.
\<close>

theorem flag_written_outside_lock:
  "\<not> guarded [Tensorboard_data, Nvidia_smi_data, Monitoring_active] False
       (snd (exec_call demo_config no_ssh_env Stop_monitoring (initial_globals :: string globals)))"
  by (simp add: stop_monitoring_def)

text \<open>
  Claim C2, amended. Whatever call is made and whatever the remote side does, every write
  to the GPU window, the experiment-metrics mapping and the experiment list happens
  inside \<^verbatim>\<open>with data_lock:\<close>. The active-session flag is not covered by the lock: the
  stop handler's only effect is one unlocked write of the flag, and the start handler,
  once the script is pushed, begins with unlocked writes of the flag and the thread list.
\<close>

theorem collections_written_under_lock:
  "guarded [Tensorboard_data, Nvidia_smi_data, Tensorboard_experiments] False
     (snd (exec_call cfg env c s))
   \<and> snd (snd (stop_monitoring s)) = [Write Monitoring_active]
   \<and> (\<exists>rest. snd (snd (start_collectors cfg env p outs s))
          = Write Monitoring_active # Write Monitoring_threads # rest)"
proof -
  obtain resp s' evs where sc: "start_collectors cfg env p outs s = (resp, s', evs)"
    by (cases "start_collectors cfg env p outs s") auto
  show ?thesis
    using exec_call_props [of s cfg env c] start_collectors_props [OF sc] sc
    by (simp add: locked_vars_def stop_monitoring_def)
qed

subsection \<open>Remote Executor\<close>

text \<open>
  Claim C3 as stated fails. It says that the executor never raises and turns a spawn
  failure into a result with exit code 1. With no \<^verbatim>\<open>ssh\<close> executable the exception of
  \<^verbatim>\<open>subprocess.run\<close> leaves \<^verbatim>\<open>run_ssh_command\<close>.
\<close>

theorem run_ssh_command_raises:
  "run_ssh_command demo_config no_ssh_env ''nvidia-smi''
   = Inl (OSError ''[Errno 2] No such file or directory'')"
  by (simp add: run_ssh_command_def no_ssh_env_def)

text \<open>
  Claim C3, amended. \<^verbatim>\<open>run_ssh_command\<close> returns the captured output and the exit code
  whenever the process is spawned, whatever the exit code; a spawn failure leaves it as
  an exception. The conversion is done by each caller: the GPU sampler, the scalar
  fetcher and the experiment lister return a result with exit code 1, empty stdout and
  the failure text in stderr, and the start handler an error status with the failure
  text as message; none of them changes the shared state.
\<close>

theorem spawn_failure_caught_by_callers:
  "(subprocess_run env (ssh_argv cfg c) = Inr r \<longrightarrow>
      run_ssh_command cfg env c = Inr (cp_stdout r, cp_stderr r, cp_returncode r))
   \<and> (subprocess_run env (ssh_argv cfg c) = Inl e \<longrightarrow> run_ssh_command cfg env c = Inl e)
   \<and> (subprocess_run env (ssh_argv cfg nvidia_command) = Inl e \<longrightarrow>
        fetch_nvidia_smi cfg env s
        = (\<lparr>command = nvidia_command, stdout = [], stderr = str_exc e, returncode = 1\<rparr>, s, []))
   \<and> (subprocess_run env (ssh_argv cfg (tb_command cfg p)) = Inl e \<longrightarrow>
        fetch_tensorboard_data cfg env p s
        = (\<lparr>command = tb_command cfg p, stdout = [], stderr = str_exc e, returncode = 1,
             data = None, error = None\<rparr>, s, []))
   \<and> (subprocess_run env (ssh_argv cfg (list_command cfg)) = Inl e \<longrightarrow>
        list_tensorboard_experiments cfg env s
        = (\<lparr>command = list_command cfg, stdout = [], stderr = str_exc e, returncode = 1,
             experiments = []\<rparr>, s, []))
   \<and> (\<not> monitoring_active s \<and> subprocess_run env (ssh_argv cfg mkdir_command) = Inl e \<longrightarrow>
        start_monitoring cfg env (Inr p') s
        = (Inr \<lparr>status = ''error'', message = Some (str_exc e),
                 output_text = Some (newline @ ''Error: '' @ str_exc e), content = None\<rparr>, s, []))"
  by (simp add: run_ssh_command_def fetch_nvidia_smi_def fetch_tensorboard_data_def
      list_tensorboard_experiments_def start_monitoring_def exc_result_def cmd_result.extend_def
      tb_result.defs exp_result.defs)

text \<open>Claim C3, amended, at a remote side that answers and at one with no \<^verbatim>\<open>ssh\<close>.\<close>

theorem spawn_failure_caught_by_callers_witness:
  "run_ssh_command demo_config (const_env ''out'' ''err'' 3 (Inr JNull)) ''ls'' = Inr (''out'', ''err'', 3)
   \<and> run_ssh_command demo_config no_ssh_env ''ls'' = Inl (OSError ''[Errno 2] No such file or directory'')
   \<and> fetch_nvidia_smi demo_config no_ssh_env initial_globals
      = (\<lparr>command = nvidia_command, stdout = [], stderr = ''[Errno 2] No such file or directory'',
           returncode = 1\<rparr>, initial_globals, [])
   \<and> fetch_tensorboard_data demo_config no_ssh_env ''/a/b'' initial_globals
      = (\<lparr>command = tb_command demo_config ''/a/b'', stdout = [],
           stderr = ''[Errno 2] No such file or directory'', returncode = 1,
           data = None, error = None\<rparr>, initial_globals, [])
   \<and> list_tensorboard_experiments demo_config no_ssh_env initial_globals
      = (\<lparr>command = list_command demo_config, stdout = [],
           stderr = ''[Errno 2] No such file or directory'', returncode = 1,
           experiments = []\<rparr>, initial_globals, [])
   \<and> start_monitoring demo_config no_ssh_env (Inr None) initial_globals
      = (Inr \<lparr>status = ''error'', message = Some ''[Errno 2] No such file or directory'',
               output_text = Some (newline @ ''Error: [Errno 2] No such file or directory''),
               content = None\<rparr>, initial_globals, [])"
  using spawn_failure_caught_by_callers [of "const_env ''out'' ''err'' 3 (Inr JNull)" demo_config "''ls''"
      "\<lparr>cp_stdout = ''out'', cp_stderr = ''err'', cp_returncode = 3\<rparr>"]
    spawn_failure_caught_by_callers [of no_ssh_env demo_config "''ls''" _
      "OSError ''[Errno 2] No such file or directory''" initial_globals "''/a/b''" None]
  by (simp add: const_env_def no_ssh_env_def initial_globals_def)

subsection \<open>Monitoring Controller\<close>

lemma mkdir_command_text: "mkdir_command = ''mkdir -p /home/user/remoteutil''"
  by (simp add: mkdir_command_def dirname_def REMOTE_SCRIPT_PATH_def rstrip_slash_def)

lemma start_monitoring_not_error_active:
  assumes "start_monitoring cfg env req s = (Inr resp, s1, evs)" and "status resp \<noteq> ''error''"
  shows "monitoring_active s1"
proof -
  consider
    (running) "monitoring_active s" "start_monitoring cfg env req s
      = (Inr \<lparr>status = ''already_running'', message = None,
               output_text = Some ''Monitoring already active'', content = None\<rparr>, s, [])"
  | (raised) e where "start_monitoring cfg env req s = (Inl e, s, [])"
  | (failed) r where "status r = ''error''" "start_monitoring cfg env req s = (Inr r, s, [])"
  | (started) p outs where "start_monitoring cfg env req s
            = (Inr (fst (start_collectors cfg env p outs s)),
               snd (start_collectors cfg env p outs s))"
    using start_monitoring_outcomes [of s cfg env req] by blast
  then show ?thesis
  proof cases
    case running
    then show ?thesis using assms(1) by simp
  next
    case raised
    then show ?thesis using assms(1) by simp
  next
    case failed
    then show ?thesis using assms by simp
  next
    case started
    obtain r s' ev where sc: "start_collectors cfg env p outs s = (r, s', ev)"
      by (cases "start_collectors cfg env p outs s") auto
    show ?thesis using started sc assms(1) start_collectors_props [OF sc] by simp
  qed
qed

lemma exec_call_keeps_active:
  assumes "c \<noteq> Stop_monitoring" and "monitoring_active s"
  shows "monitoring_active (fst (exec_call cfg env c s))"
proof (cases c)
  case Fetch_nvidia_smi
  then show ?thesis using assms(2) fetch_nvidia_smi_others [of cfg env s] by simp
next
  case (Fetch_tensorboard_data p)
  then show ?thesis using assms(2) fetch_tensorboard_data_window [of cfg env p s] by simp
next
  case List_tensorboard_experiments
  then show ?thesis
    using assms(2) list_tensorboard_experiments_cases [of cfg env s] by auto
next
  case (Get_tensorboard_data p)
  then show ?thesis using assms(2) by (simp add: get_tensorboard_data_def Let_def)
next
  case Get_nvidia_smi_data
  obtain r s1 ev where f: "fetch_nvidia_smi cfg env s = (r, s1, ev)"
    by (cases "fetch_nvidia_smi cfg env s") auto
  show ?thesis
    using Get_nvidia_smi_data f assms(2) fetch_gpu_keeps(2) [OF f]
    by (simp add: get_nvidia_smi_data_def)
next
  case (Start_monitoring req)
  then show ?thesis using assms(2) by (simp add: start_monitoring_def)
next
  case Stop_monitoring
  then show ?thesis using assms(1) by simp
qed

lemma run_calls_keeps_active:
  "Stop_monitoring \<notin> snd ` set cs \<Longrightarrow> monitoring_active s
   \<Longrightarrow> monitoring_active (run_calls cfg cs s)"
proof (induction cs arbitrary: s)
  case Nil
  then show ?case by simp
next
  case (Cons a cs)
  obtain env c where a: "a = (env, c)" by (cases a) auto
  have "c \<noteq> Stop_monitoring" using Cons.prems(1) a by auto
  then have "monitoring_active (fst (exec_call cfg env c s))"
    using Cons.prems(2) by (rule exec_call_keeps_active)
  moreover have "Stop_monitoring \<notin> snd ` set cs" using Cons.prems(1) by auto
  ultimately show ?case using a by (simp add: Cons.IH)
qed

text \<open>
  Claim C4 as stated fails. It says that of any two starts in succession the second
  returns \<^verbatim>\<open>already_running\<close> and starts nothing. When the script push of the first
  start exits with a non-zero code, the handler returns an error before it sets the
  flag, and the second start then sets the flag and starts a thread.
\<close>

theorem second_start_after_failed_push:
  "start_monitoring demo_config push_fails_env (Inr None) initial_globals
   = (Inr \<lparr>status = ''error'', message = Some ''Failed to sync tensorboard script'',
            output_text = Some (''$ mkdir -p /home/user/remoteutil'' @ newline @ newline
              @ ''$ rsync -av -e ssh -i /k -p 22 -o StrictHostKeyChecking=no ''
              @ ''extract_tensorboard.py u@gpu:/home/user/remoteutil/extract_tensorboard.py''
              @ newline @ ''rsync: connection unexpectedly closed''),
            content = None\<rparr>, initial_globals, [])
   \<and> start_monitoring demo_config quiet_env (Inr None) initial_globals
   = (Inr \<lparr>status = ''started'', message = None,
             output_text = Some (''$ mkdir -p /home/user/remoteutil'' @ newline @ newline
               @ ''$ rsync -av -e ssh -i /k -p 22 -o StrictHostKeyChecking=no ''
               @ ''extract_tensorboard.py u@gpu:/home/user/remoteutil/extract_tensorboard.py''
               @ newline @ newline @ ''Initial GPU metrics fetched successfully'' @ newline
               @ ''Started nvidia-smi monitoring thread (10s interval)''),
             content = None\<rparr>,
       one_session,
       [Write Monitoring_active, Write Monitoring_threads,
        Spawn Nvidia_smi_monitor_thread, Write Monitoring_threads])"
  by (simp add: start_monitoring_def start_collectors_def fetch_nvidia_smi_def
        run_ssh_command_def run_rsync_def rsync_argv_def ssh_argv_def push_fails_env_def
        quiet_env_def const_env_def
        demo_config_def initial_globals_def one_session_def mkdir_command_text newline_def
        REMOTE_SCRIPT_PATH_def truthy_def strip_def Let_def)

text \<open>
  Claim C4, amended. When a call of start-monitoring has returned a response other than
  an error (it started the session, or found one running), and any calls other than
  stop-monitoring follow (none, for two starts in immediate succession), the session is
  active, and the next call of start-monitoring, with any request and any behaviour of
  the remote side, returns \<^verbatim>\<open>already_running\<close>, leaves every global as it was and logs
  nothing: no write and no thread start.
\<close>

theorem second_start_already_running:
  assumes "start_monitoring cfg env1 req1 s = (Inr resp1, s1, evs1)"
    and "status resp1 \<noteq> ''error''"
    and "Stop_monitoring \<notin> snd ` set between"
  shows "monitoring_active (run_calls cfg between s1)
    \<and> start_monitoring cfg env2 req2 (run_calls cfg between s1)
      = (Inr \<lparr>status = ''already_running'', message = None,
               output_text = Some ''Monitoring already active'', content = None\<rparr>,
         run_calls cfg between s1, [])"
proof -
  have "monitoring_active s1"
    using assms(1,2) by (rule start_monitoring_not_error_active)
  then have "monitoring_active (run_calls cfg between s1)"
    using assms(3) run_calls_keeps_active by blast
  then show ?thesis by (simp add: start_monitoring_def)
qed

text \<open>Claim C4, amended, at a first start with no experiment path, a GPU poll, then a second start.\<close>

theorem second_start_already_running_witness:
  "monitoring_active (run_calls demo_config [(quiet_env, Get_nvidia_smi_data)] one_session)
   \<and> start_monitoring demo_config no_ssh_env (Inr (Some ''/a/b''))
       (run_calls demo_config [(quiet_env, Get_nvidia_smi_data)] one_session)
     = (Inr \<lparr>status = ''already_running'', message = None,
              output_text = Some ''Monitoring already active'', content = None\<rparr>,
        run_calls demo_config [(quiet_env, Get_nvidia_smi_data)] one_session, [])"
proof -
  have first: "start_monitoring demo_config quiet_env (Inr None) initial_globals
    = (Inr \<lparr>status = ''started'', message = None,
             output_text = Some (''$ mkdir -p /home/user/remoteutil'' @ newline @ newline
               @ ''$ rsync -av -e ssh -i /k -p 22 -o StrictHostKeyChecking=no ''
               @ ''extract_tensorboard.py u@gpu:/home/user/remoteutil/extract_tensorboard.py''
               @ newline @ newline @ ''Initial GPU metrics fetched successfully'' @ newline
               @ ''Started nvidia-smi monitoring thread (10s interval)''),
             content = None\<rparr>,
       one_session,
       [Write Monitoring_active, Write Monitoring_threads,
        Spawn Nvidia_smi_monitor_thread, Write Monitoring_threads])"
    by (simp add: start_monitoring_def start_collectors_def fetch_nvidia_smi_def
        run_ssh_command_def run_rsync_def rsync_argv_def quiet_env_def const_env_def
        demo_config_def initial_globals_def one_session_def mkdir_command_text newline_def
        REMOTE_SCRIPT_PATH_def truthy_def strip_def Let_def)
  have ne: "status \<lparr>status = ''started'', message = None,
             output_text = Some (''$ mkdir -p /home/user/remoteutil'' @ newline @ newline
               @ ''$ rsync -av -e ssh -i /k -p 22 -o StrictHostKeyChecking=no ''
               @ ''extract_tensorboard.py u@gpu:/home/user/remoteutil/extract_tensorboard.py''
               @ newline @ newline @ ''Initial GPU metrics fetched successfully'' @ newline
               @ ''Started nvidia-smi monitoring thread (10s interval)''),
             content = None\<rparr> \<noteq> ''error''"
    by simp
  have nostop: "Stop_monitoring \<notin> snd ` set [(quiet_env, Get_nvidia_smi_data)]" by simp
  show ?thesis
    using second_start_already_running [OF first ne nostop, of no_ssh_env "Inr (Some ''/a/b'')"]
    by simp
qed

text \<open>
  Claim C10. With no session active and both processes spawned, the start handler
  answers with an error status exactly when the script push exits with a non-zero code,
  and then nothing is changed; when the push exits with 0 the answer is \<^verbatim>\<open>started\<close> and
  the session is active. The exit code of the remote \<^verbatim>\<open>mkdir\<close> appears nowhere in the
  outcome.
\<close>

theorem mkdir_status_ignored:
  assumes "\<not> monitoring_active s"
    and "subprocess_run env (ssh_argv cfg mkdir_command) = Inr m"
    and "subprocess_run env (rsync_argv cfg (TENSORBOARD_SCRIPT_PATH cfg) REMOTE_SCRIPT_PATH False)
         = Inr r"
  shows "\<exists>resp s1 evs. start_monitoring cfg env (Inr p) s = (Inr resp, s1, evs)
      \<and> (status resp = ''error'' \<longleftrightarrow> cp_returncode r \<noteq> 0)
      \<and> (cp_returncode r = 0 \<longrightarrow> status resp = ''started'' \<and> monitoring_active s1)
      \<and> (cp_returncode r \<noteq> 0 \<longrightarrow> s1 = s \<and> evs = [])"
proof (cases "cp_returncode r = 0")
  case False
  then show ?thesis
    using assms by (simp add: start_monitoring_def run_ssh_command_def run_rsync_def Let_def)
next
  case True
  let ?outs = "[''$ '' @ mkdir_command @ newline @ cp_stdout m @ cp_stderr m,
                ''$ '' @ join '' '' (rsync_argv cfg (TENSORBOARD_SCRIPT_PATH cfg) REMOTE_SCRIPT_PATH False)
                  @ newline @ cp_stdout r @ cp_stderr r]"
  obtain resp s1 evs where sc: "start_collectors cfg env p ?outs s = (resp, s1, evs)"
    by (cases "start_collectors cfg env p ?outs s") auto
  have "start_monitoring cfg env (Inr p) s = (Inr resp, s1, evs)"
    using assms True sc
    by (simp add: start_monitoring_def run_ssh_command_def run_rsync_def Let_def)
  then show ?thesis
    using True start_collectors_props [OF sc] by simp
qed

text \<open>Claim C10 at a remote side whose \<^verbatim>\<open>mkdir\<close> exits with 1.\<close>

theorem mkdir_status_ignored_witness:
  "\<exists>resp s1 evs.
      start_monitoring demo_config mkdir_fails_env (Inr None) initial_globals = (Inr resp, s1, evs)
      \<and> status resp = ''started'' \<and> monitoring_active s1"
proof -
  have na: "\<not> monitoring_active (initial_globals :: string globals)"
    by (simp add: initial_globals_def)
  have mk: "subprocess_run mkdir_fails_env (ssh_argv demo_config mkdir_command)
            = Inr \<lparr>cp_stdout = [], cp_stderr = ''mkdir: Permission denied'', cp_returncode = 1\<rparr>"
    by (simp add: mkdir_fails_env_def)
  have rs: "subprocess_run mkdir_fails_env
              (rsync_argv demo_config (TENSORBOARD_SCRIPT_PATH demo_config) REMOTE_SCRIPT_PATH False)
            = Inr \<lparr>cp_stdout = [], cp_stderr = [], cp_returncode = 0\<rparr>"
    by (simp add: mkdir_fails_env_def rsync_argv_def ssh_argv_def)
  show ?thesis
    using mkdir_status_ignored [OF na mk rs, of None] by auto
qed

subsection \<open>Scalar fetcher\<close>

text \<open>
  Claim C5. When the helper exits with 0 and its output parses to an object with an
  \<^verbatim>\<open>error\<close> key, the fetch changes no global and logs no write, and returns the
  dictionary with \<open>data\<close> None and the value of that key under \<^verbatim>\<open>error\<close>.
\<close>

theorem reported_error_no_mutation:
  assumes "subprocess_run env (ssh_argv cfg (tb_command cfg p)) = Inr r"
    and "cp_returncode r = 0" and "cp_stdout r \<noteq> []"
    and "json_loads env (cp_stdout r) = Inr (JObj kvs)"
    and "map_of kvs ''error'' = Some x"
  shows "fetch_tensorboard_data cfg env p s
    = (\<lparr>command = tb_command cfg p, stdout = cp_stdout r, stderr = cp_stderr r, returncode = 0,
         data = None, error = Some x\<rparr>, s, [])"
  using assms
  by (simp add: fetch_tensorboard_data_def run_ssh_command_def bind_exc_def)

text \<open>Claim C5 at a helper that prints an error object and exits with 0.\<close>

theorem reported_error_no_mutation_witness:
  "fetch_tensorboard_data demo_config reported_error_env ''/a/b'' one_session
   = (\<lparr>command = tb_command demo_config ''/a/b'', stdout = error_json_text, stderr = [],
        returncode = 0, data = None, error = Some (JStr ''x'')\<rparr>, one_session, [])"
  using reported_error_no_mutation [of reported_error_env demo_config "''/a/b''"
      "\<lparr>cp_stdout = error_json_text, cp_stderr = [], cp_returncode = 0\<rparr>"
      "[(''error'', JStr ''x'')]" "JStr ''x''" one_session]
  by (simp add: reported_error_env_def const_env_def error_json_text_def)

text \<open>
  Claim C9. A remote command that exits with 0 and prints nothing takes the same branch
  as one that exits with a non-zero code: the fetch returns the captured output with
  \<open>data\<close> None, changes no global and logs no write, and \<^verbatim>\<open>json.loads\<close> plays no part in
  the outcome.
\<close>

theorem empty_stdout_is_failure:
  assumes "subprocess_run env (ssh_argv cfg (tb_command cfg p)) = Inr r"
    and "cp_returncode r \<noteq> 0 \<or> cp_stdout r = []"
  shows "fetch_tensorboard_data cfg env p s
    = (\<lparr>command = tb_command cfg p, stdout = cp_stdout r, stderr = cp_stderr r,
         returncode = cp_returncode r, data = None, error = None\<rparr>, s, [])
    \<and> fetch_tensorboard_data cfg (env\<lparr>json_loads := jl\<rparr>) p s
      = fetch_tensorboard_data cfg env p s"
  using assms
  by (auto simp: fetch_tensorboard_data_def run_ssh_command_def)

text \<open>Claim C9 at exit code 0 and empty output.\<close>

theorem empty_stdout_is_failure_witness:
  "fetch_tensorboard_data demo_config quiet_env ''/a/b'' one_session
   = (\<lparr>command = tb_command demo_config ''/a/b'', stdout = [], stderr = [],
        returncode = 0, data = None, error = None\<rparr>, one_session, [])
   \<and> fetch_tensorboard_data demo_config (quiet_env\<lparr>json_loads := (\<lambda>t. Inr loss_scalars)\<rparr>)
        ''/a/b'' one_session
     = fetch_tensorboard_data demo_config quiet_env ''/a/b'' one_session"
  using empty_stdout_is_failure [of quiet_env demo_config "''/a/b''"
      "\<lparr>cp_stdout = [], cp_stderr = [], cp_returncode = 0\<rparr>" one_session
      "\<lambda>t. Inr loss_scalars"]
  by (simp add: quiet_env_def const_env_def)



subsection \<open>GPU sampler\<close>

text \<open>
  Claim C6 as stated fails. It says that a malformed line, such as one with tokens that
  are no numbers, appends nothing. The sampler reads the first four fields only: a line
  of four numbers followed by such tokens is appended.
\<close>

theorem trailing_garbage_is_appended:
  "fetch_nvidia_smi demo_config trailing_garbage_env initial_globals
   = (\<lparr>command = nvidia_command, stdout = ''45, 120.5, 1000, 8000, garbage, N/A'', stderr = [],
        returncode = 0\<rparr>,
      initial_globals\<lparr>nvidia_smi_data :=
        \<lparr>timestamps = [''2024-01-01T00:00:00''], temperature = [''45''], power' = [''120.5''],
         memory_used = [''1000''], memory_total = [''8000'']\<rparr>\<rparr>,
      [Acquire, Write Nvidia_smi_data, Write Nvidia_smi_data, Write Nvidia_smi_data,
       Write Nvidia_smi_data, Write Nvidia_smi_data, Release])"
  by (simp add: fetch_nvidia_smi_def run_ssh_command_def trailing_garbage_env_def const_env_def
      strip_def is_space_def parse_gpu_fields_def float_at_def py_index_def bind_exc_def
      demo_float_def record_sample_def append_sample_def initial_globals_def Let_def
      eval_nat_numeral)

text \<open>
  Claim C6, amended. When the sensor command exits with 0 and its stripped output has
  fewer than four comma-separated fields, or one of the first four is not accepted by
  \<^verbatim>\<open>float\<close>, the sampler changes no global and logs no write: the window is as before.
\<close>

theorem malformed_line_appends_nothing:
  assumes "subprocess_run env (ssh_argv cfg nvidia_command) = Inr r"
    and "cp_returncode r = 0"
    and "length (split_on (CHR '','') (strip (cp_stdout r))) < 4
         \<or> (\<exists>i<4. \<exists>e. py_float env (strip (split_on (CHR '','') (strip (cp_stdout r)) ! i)) = Inl e)"
  shows "snd (fetch_nvidia_smi cfg env s) = (s, [])"
proof -
  obtain e where "parse_gpu_fields env (split_on (CHR '','') (strip (cp_stdout r))) = Inl e"
    using parse_gpu_fields_fails [OF assms(3)] by blast
  then show ?thesis
    using assms(1,2) by (simp add: fetch_nvidia_smi_def run_ssh_command_def Let_def)
qed

text \<open>Claim C6, amended, at a line of two fields and at a line whose second field is no number.\<close>

theorem malformed_line_appends_nothing_witness:
  "snd (fetch_nvidia_smi demo_config (const_env ''45, 120.5'' [] 0 (Inr JNull)) initial_globals)
     = (initial_globals, [])
   \<and> snd (fetch_nvidia_smi demo_config (const_env ''45, N/A, 1000, 8000'' [] 0 (Inr JNull))
        initial_globals)
     = (initial_globals, [])"
proof -
  let ?e2 = "const_env ''45, 120.5'' [] 0 (Inr JNull)"
  let ?r2 = "\<lparr>cp_stdout = ''45, 120.5'', cp_stderr = [], cp_returncode = 0\<rparr>"
  let ?e4 = "const_env ''45, N/A, 1000, 8000'' [] 0 (Inr JNull)"
  let ?r4 = "\<lparr>cp_stdout = ''45, N/A, 1000, 8000'', cp_stderr = [], cp_returncode = 0\<rparr>"
  have s2: "strip ''45, 120.5'' = ''45, 120.5''" by (simp add: strip_def is_space_def)
  have s4: "strip ''45, N/A, 1000, 8000'' = ''45, N/A, 1000, 8000''"
    by (simp add: strip_def is_space_def)
  have two: "length (split_on (CHR '','') (strip (cp_stdout ?r2))) < 4
       \<or> (\<exists>i<4. \<exists>e. py_float ?e2 (strip (split_on (CHR '','') (strip (cp_stdout ?r2)) ! i)) = Inl e)"
    by (simp add: s2)
  have "py_float ?e4 (strip (split_on (CHR '','') (strip (cp_stdout ?r4)) ! 1))
        = Inl (ValueError ''could not convert string to float'')"
    by (simp add: s4 const_env_def demo_float_def strip_def is_space_def)
  then have tok: "length (split_on (CHR '','') (strip (cp_stdout ?r4))) < 4
       \<or> (\<exists>i<4. \<exists>e. py_float ?e4 (strip (split_on (CHR '','') (strip (cp_stdout ?r4)) ! i)) = Inl e)"
    by (metis one_less_numeral_iff semiring_norm(76))
  show ?thesis
    using malformed_line_appends_nothing [of ?e2 demo_config ?r2 initial_globals, OF _ _ two]
      malformed_line_appends_nothing [of ?e4 demo_config ?r4 initial_globals, OF _ _ tok]
    by (simp add: const_env_def)
qed

subsection \<open>Output handler\<close>

text \<open>
  Claim C8. With no file at the local output path, \<^verbatim>\<open>GET /api/output\<close> answers with
  status \<^verbatim>\<open>error\<close> and the message \<^verbatim>\<open>Output file not found. Please sync first.\<close>
\<close>

theorem output_before_sync:
  "get_output Missing
   = \<lparr>status = ''error'', message = Some ''Output file not found. Please sync first.'',
      output_text = None, content = None\<rparr>"
  by (simp add: get_output_def)

end
